theory Spec2Isabelle
  imports Main "HOL-Library.Word" "HOL-Library.Sublist"
begin

section \<open>Errors\<close>

text \<open>
  Go error values of \<^verbatim>\<open>internal/controllers/app_controller.go\<close>.
  \<open>ErrNew\<close> is an error made by \<^verbatim>\<open>errors.New\<close>, \<^verbatim>\<open>errors.Errorf\<close> or
  \<^verbatim>\<open>fmt.Errorf\<close> without a \<^verbatim>\<open>%w\<close> verb (the message is kept, with the formatted
  arguments spliced in where the model has them); \<open>ErrWrap\<close> is \<^verbatim>\<open>fmt.Errorf\<close> with
  \<^verbatim>\<open>%w\<close>: a message around a wrapped error; \<open>StatusError\<close> is an error answered by
  the cluster API (HTTP code and message), which only the environment produces.
\<close>

datatype err =
    ErrNew string
  | ErrWrap string err
  | StatusError int string

text \<open>\<^verbatim>\<open>errors.Unwrap\<close>: the wrapped error of a \<^verbatim>\<open>%w\<close> error, nil for every other.\<close>

fun Unwrap :: "err \<Rightarrow> err option" where
  "Unwrap (ErrWrap m e) = Some e"
| "Unwrap (ErrNew m) = None"
| "Unwrap (StatusError c m) = None"

text \<open>
  A string between quotation marks, as \<^verbatim>\<open>"%s"\<close> in a format string prints it, and as
  \<^verbatim>\<open>%q\<close> prints a string with nothing to escape.
\<close>

definition quoted :: "string \<Rightarrow> string" where
  "quoted s = CHR 0x22 # s @ [CHR 0x22]"

section \<open>Pods and the health predicate\<close>

text \<open>\<^verbatim>\<open>v1.PodPhase\<close> is a string type; the five named constants and any other string.\<close>

datatype PodPhase =
    PodPending | PodRunning | PodSucceeded | PodFailed | PodUnknown
  | PodPhaseOther string

datatype ConditionStatus = ConditionTrue | ConditionFalse | ConditionUnknown

record PodCondition =
  cond_type :: string
  cond_status :: ConditionStatus

record Pod =
  pod_name :: string
  pod_phase :: PodPhase
  pod_message :: string
  pod_conditions :: "PodCondition list"

text \<open>
  The label selector handed to \<^verbatim>\<open>client.List\<close>. The version label's value is
  \<^verbatim>\<open>depVersion.String()\<close> in the source; the model keeps the number.
\<close>

datatype label_value = LabelStr string | LabelVersion int

type_synonym labels = "(string \<times> label_value) list"

text \<open>
  \<^verbatim>\<open>client.Client\<close>, as far as \<open>checkPodStatus\<close> uses it: the answer of
  \<^verbatim>\<open>c.List(ctx, podList, listOpts...)\<close> for a label selector.
\<close>

record Client =
  ListPods :: "labels \<Rightarrow> err + Pod list"

text \<open>The inner loop over \<^verbatim>\<open>pod.Status.Conditions\<close>: the first status that is not True fails.\<close>

fun checkConditions :: "PodCondition list \<Rightarrow> err option" where
  "checkConditions [] = None"
| "checkConditions (c # cs) =
     (if cond_status c \<noteq> ConditionTrue
      then Some (ErrNew ''all pods are not in healthy state'')
      else checkConditions cs)"

text \<open>The loop over \<^verbatim>\<open>podList.Items\<close>, in list order, with its three returns.\<close>

fun checkPods :: "Pod list \<Rightarrow> err option" where
  "checkPods [] = None"
| "checkPods (pod # pods) =
     (if pod_phase pod = PodSucceeded then None
      else if pod_phase pod \<noteq> PodRunning then Some (ErrNew ''all pods are not running'')
      else (case checkConditions (pod_conditions pod) of
              Some e \<Rightarrow> Some e
            | None \<Rightarrow> checkPods pods))"

text \<open>
  \<open>checkPodStatus\<close>: the client is a Go interface value, \<open>None\<close> being nil; the result
  is the returned error, \<open>None\<close> being nil (success).
\<close>

definition checkPodStatus :: "string \<Rightarrow> Client option \<Rightarrow> string \<Rightarrow> int \<Rightarrow> err option" where
  "checkPodStatus grp c appName depVersion =
     (case c of
        None \<Rightarrow> Some (ErrNew ''client must be non-nil'')
      | Some cl \<Rightarrow>
          if length appName = 0 \<or> depVersion \<le> 0
          then Some (ErrNew ''invalid app specifications'')
          else (case ListPods cl
                       [(grp @ ''/app-name'', LabelStr appName),
                        (grp @ ''/app-deployment-version'', LabelVersion depVersion)] of
                  Inl e \<Rightarrow> Some e
                | Inr podList \<Rightarrow> checkPods podList))"

text \<open>The two errors of the pod loop: the pods are not ready.\<close>

definition PodsNotReady :: "err \<Rightarrow> bool" where
  "PodsNotReady e \<longleftrightarrow>
     e = ErrNew ''all pods are not running'' \<or> e = ErrNew ''all pods are not in healthy state''"

text \<open>A pod the loop steps over: running, with every condition True.\<close>

definition podHealthy :: "Pod \<Rightarrow> bool" where
  "podHealthy pod \<longleftrightarrow>
     pod_phase pod = PodRunning \<and> list_all (\<lambda>c. cond_status c = ConditionTrue) (pod_conditions pod)"

text \<open>The health predicate as the specification words it: some pod succeeded, or all are healthy.\<close>

definition specHealthy :: "Pod list \<Rightarrow> bool" where
  "specHealthy pods \<longleftrightarrow>
     list_ex (\<lambda>p. pod_phase p = PodSucceeded) pods \<or> list_all podHealthy pods"

text \<open>A client whose pod listing answers \<open>pods\<close> for every selector.\<close>

definition clientWithPods :: "Pod list \<Rightarrow> Client" where
  "clientWithPods pods = \<lparr> ListPods = (\<lambda>sel. Inr pods) \<rparr>"

section \<open>Applications and frameworks\<close>

text \<open>Go's \<^verbatim>\<open>time.Time\<close> and \<^verbatim>\<open>time.Duration\<close>, both counted in nanoseconds.\<close>

type_synonym time = int

record ObjectReference =
  ref_kind :: string
  ref_name :: string

record ProcessSpec =
  proc_name :: string
  proc_units :: int

record AppDeploymentSpec =
  dep_version :: int
  dep_image :: string
  dep_processes :: "ProcessSpec list"

text \<open>
  \<^verbatim>\<open>ketchv1.CanarySpec\<close>. \<open>Started\<close> is a \<^verbatim>\<open>*metav1.Time\<close>: \<open>None\<close> is the nil pointer.
  The type is declared in the API package \<^verbatim>\<open>internal/api/v1beta1\<close>, outside the
  controller; the fields are the ones the reconciler reads and the ones the
  specification's data model lists.
\<close>

record CanarySpec =
  Active :: bool
  Started :: "time option"
  StepTimeInteval :: int
  CurrentStep :: int

text \<open>\<^verbatim>\<open>ketchv1.CanarySpec{}\<close>: every field at its zero value.\<close>

definition emptyCanarySpec :: CanarySpec where
  "emptyCanarySpec = \<lparr> Active = False, Started = None, StepTimeInteval = 0, CurrentStep = 0 \<rparr>"

text \<open>
  \<^verbatim>\<open>ketchv1.App\<close>: the metadata, spec and status fields the controller touches.
  \<open>Scheduled\<close> is the status condition of type \<^verbatim>\<open>ketchv1.Scheduled\<close> that
  \<^verbatim>\<open>app.SetCondition\<close> writes: its status and message, \<open>None\<close> while never written.
\<close>

record App =
  app_name :: string
  Finalizers :: "string list"
  DeletionTimestamp :: "time option"
  Annotations :: "(string \<times> string) list"
  SpecFramework :: string
  Deployments :: "AppDeploymentSpec list"
  DeploymentsCount :: int
  Canary :: CanarySpec
  StatusFramework :: "ObjectReference option"
  Scheduled :: "(ConditionStatus \<times> string) option"

record Framework =
  fw_name :: string
  NamespaceName :: string
  AppQuotaLimit :: "int option"
  StatusNamespace :: "ObjectReference option"
  StatusApps :: "string list"

text \<open>
  Modelled from the spec: \<^verbatim>\<open>Framework.HasApp\<close> is a method of the API package
  \<^verbatim>\<open>internal/api/v1beta1\<close>, whose code the controller does not contain. The
  specification speaks of the framework's set of member application names and of an
  application that already is a member: the name occurs in the framework's member list.
\<close>

definition HasApp :: "Framework \<Rightarrow> string \<Rightarrow> bool" where
  "HasApp fw name \<longleftrightarrow> name \<in> set (StatusApps fw)"

text \<open>
  Modelled from the spec: \<^verbatim>\<open>App.DoRollback\<close> is a method of the API package
  \<^verbatim>\<open>internal/api/v1beta1\<close>, whose code the controller does not contain. The
  specification: perform a rollback: discard the canary deployment, reset the CanarySpec
  to inactive. The canary deployment is the second entry of the deployment list, the one
  whose pods the canary step checks.
\<close>

definition DoRollback :: "App \<Rightarrow> App" where
  "DoRollback app =
     app \<lparr> Deployments := take 1 (Deployments app) @ drop 2 (Deployments app),
           Canary := emptyCanarySpec \<rparr>"

text \<open>
  Modelled from the spec: \<^verbatim>\<open>App.SetCondition\<close> is a method of the API package
  \<^verbatim>\<open>internal/api/v1beta1\<close>, whose code the controller does not contain. The
  specification: on success set condition=True, on failure set condition=False with the
  error message. The time stamp is left out.
\<close>

definition SetCondition :: "ConditionStatus \<Rightarrow> string \<Rightarrow> App \<Rightarrow> App" where
  "SetCondition st msg app = app \<lparr> Scheduled := Some (st, msg) \<rparr>"

text \<open>\<^verbatim>\<open>err.Error()\<close>: the message of an error; a wrapping error prints its own text, then the wrapped one's.\<close>

fun Error :: "err \<Rightarrow> string" where
  "Error (ErrNew m) = m"
| "Error (ErrWrap m e) = m @ '': '' @ Error e"
| "Error (StatusError c m) = m"

section \<open>Events and effects\<close>

datatype EventType = EventTypeNormal | EventTypeWarning

text \<open>The reason constants of the API package.\<close>

datatype Reason =
    AppReconcileOutcomeReason | AppReconcileStarted | AppReconcileUpdate
  | AppReconcileError | AppReconcileComplete

text \<open>
  The description of an event, one constructor for each format string of the controller,
  with the formatted arguments kept as values.
\<close>

datatype Description =
    OutcomeText string int "err option"
  | DeadlineExceededText string
  | UnitsCreatedText "32 word" "32 word"
  | WaitingHealthcheckText "32 word"
  | UnitsReadyText "32 word" "32 word"
  | PendingTerminationText "32 word"
  | ClusterEventText string
  | HealthcheckErrorText err
  | DeploymentTimeoutText err
  | GettingDeploymentsErrorText err

record Event =
  ev_type :: EventType
  ev_reason :: Reason
  ev_desc :: Description

text \<open>The four places where the controller calls \<^verbatim>\<open>r.Update\<close> on the application.\<close>

datatype UpdateSite = AddFinalizerUpdate | RollbackUpdate | CanaryUpdate | RemoveFinalizerUpdate

text \<open>
  What one pass leaves behind, in order: the events handed to the recorder and every
  write that the object store or the chart applier accepted. \<open>WatchStarted\<close> stands for a
  successful \<open>watchDeployEvents\<close> call: its started event and the watcher it launches.
\<close>

datatype Effect =
    Recorded Event
  | FrameworkStatusPatched Framework
  | AppUpdated UpdateSite App
  | AppStatusUpdated App
  | ChartUpdated App
  | ChartDeleted string
  | WatchStarted string

fun isOutcomeEvent :: "Effect \<Rightarrow> bool" where
  "isOutcomeEvent (Recorded ev) = (ev_reason ev = AppReconcileOutcomeReason)"
| "isOutcomeEvent other = False"

fun isChartUpdate :: "Effect \<Rightarrow> bool" where
  "isChartUpdate (ChartUpdated a) = True"
| "isChartUpdate other = False"

fun isAppUpdate :: "Effect \<Rightarrow> bool" where
  "isAppUpdate (AppUpdated site a) = True"
| "isAppUpdate other = False"

section \<open>Workloads\<close>

record DeploymentCondition =
  dc_type :: string
  dc_reason :: string

text \<open>
  \<^verbatim>\<open>appsv1.Deployment\<close>: \<open>SpecReplicas\<close> is the \<^verbatim>\<open>*int32\<close> of the spec (\<open>None\<close> is
  nil), the status counters are \<^verbatim>\<open>int32\<close>.
\<close>

record Deployment =
  d_name :: string
  Generation :: int
  ObservedGeneration :: int
  SpecReplicas :: "32 word option"
  Replicas :: "32 word"
  UpdatedReplicas :: "32 word"
  ReadyReplicas :: "32 word"
  UnavailableReplicas :: "32 word"
  Conditions :: "DeploymentCondition list"

section \<open>The reconciler and its collaborators\<close>

text \<open>\<^verbatim>\<open>Helm\<close>: the answers of the chart applier's two methods.\<close>

record Helm =
  UpdateChart :: "App \<Rightarrow> err option"
  DeleteChart :: "string \<Rightarrow> err option"

text \<open>
  \<open>AppReconciler\<close>: the fields of the Go struct that the passes read, and, as functions
  of their arguments, the answers of the collaborators one pass calls: the object store
  (\<open>GetApp\<close>, \<open>GetFramework\<close>, \<open>ListFrameworks\<close>, \<open>Update\<close> at each of its call sites,
  \<open>PatchFrameworkStatus\<close>, \<open>StatusUpdate\<close>, \<open>ListHPAs\<close>, \<open>GetDeployment\<close>, the pod
  listing of \<open>PodClient\<close>), \<^verbatim>\<open>reference.GetReference\<close>, the template reader,
  \<^verbatim>\<open>chart.New\<close> and the helm factory. \<open>IsConflict\<close> and \<open>IsNotFound\<close> are the
  classifiers of \<^verbatim>\<open>k8s.io/apimachinery/pkg/api/errors\<close>. What the controller takes
  from other files of the repository is a field too: the constants \<open>reconcileTimeout\<close>
  and \<open>KetchFinalizer\<close>, the function \<open>uninstallHelmChart\<close>, and the method
  \<open>DoCanary\<close>, which answers the error and the application as the canary step leaves
  it (the clock reading and the autoscaler targets of \<open>hpaTargetMap\<close> that it is given
  are part of the answer). \<open>WatchDeployEvents\<close> is the answer of \<open>watchDeployEvents\<close>,
  which waits for the workload's generation and launches \<open>watchFunc\<close> in the
  background; the run of \<open>watchFunc\<close> is modelled on its own below.
\<close>

record AppReconciler =
  Group :: string
  Now :: time
  reconcileTimeout :: int
  KetchFinalizer :: string
  IsConflict :: "err \<Rightarrow> bool"
  IsNotFound :: "err \<Rightarrow> bool"
  PodClient :: Client
  GetApp :: "err + App"
  Update :: "UpdateSite \<Rightarrow> App \<Rightarrow> err option"
  StatusUpdate :: "App \<Rightarrow> err option"
  GetFramework :: "string \<Rightarrow> err + Framework"
  ListFrameworks :: "err + Framework list"
  GetReference :: "Framework \<Rightarrow> err + ObjectReference"
  TemplatesGet :: "Framework \<Rightarrow> err option"
  ChartNew :: "App \<Rightarrow> Framework \<Rightarrow> err option"
  PatchFrameworkStatus :: "Framework \<Rightarrow> err option"
  HelmFactoryFn :: "string \<Rightarrow> err + Helm"
  ListHPAs :: "string \<Rightarrow> err option"
  DoCanary :: "App \<Rightarrow> err option \<times> App"
  GetDeployment :: "string \<Rightarrow> string \<Rightarrow> string \<Rightarrow> int \<Rightarrow> err + Deployment"
  WatchDeployEvents :: "Deployment \<Rightarrow> ProcessSpec \<Rightarrow> err option"
  uninstallHelmChart :: "string \<Rightarrow> (string \<times> string) list \<Rightarrow> bool"

section \<open>Conflict detection\<close>

lemma Unwrap_size: "Unwrap e = Some e' \<Longrightarrow> size e' < size e"
  by (cases e) auto

text \<open>
  The loop of \<open>isConflictError\<close> from a non-nil error on: classify, else unwrap and go on;
  nil ends it with false.
\<close>

function isConflictChain :: "(err \<Rightarrow> bool) \<Rightarrow> err \<Rightarrow> bool" where
  "isConflictChain isc e =
     (if isc e then True
      else (case Unwrap e of None \<Rightarrow> False | Some e' \<Rightarrow> isConflictChain isc e'))"
  by pat_completeness auto
termination
  by (relation "measure (\<lambda>(isc, e). size e)") (auto dest: Unwrap_size)

record appReconcileResult =
  framework :: "ObjectReference option"
  useTimeout :: bool
  res_err :: "err option"

definition isConflictError :: "(err \<Rightarrow> bool) \<Rightarrow> appReconcileResult \<Rightarrow> bool" where
  "isConflictError isc r =
     (case res_err r of None \<Rightarrow> False | Some e \<Rightarrow> isConflictChain isc e)"

section \<open>The inner reconcile\<close>

text \<open>\<^verbatim>\<open>appReconcileResult{err: e}\<close>.\<close>

definition failed :: "err \<Rightarrow> appReconcileResult" where
  "failed e = \<lparr> framework = None, useTimeout = False, res_err = Some e \<rparr>"

text \<open>
  The application object a pass holds (a pointer in the source, mutated in place) and
  the effects so far.
\<close>

record Pass =
  p_app :: App
  p_log :: "Effect list"

text \<open>How a stretch of \<open>reconcile\<close> ends: it falls through, returns a result, or panics.\<close>

datatype Flow = Next | Return appReconcileResult | Panic

text \<open>\<open>timeoutExpired\<close>, the pointer already dereferenced.\<close>

definition timeoutExpired :: "int \<Rightarrow> time \<Rightarrow> time \<Rightarrow> bool" where
  "timeoutExpired timeout t now \<longleftrightarrow> t + timeout < now"

text \<open>
  Lines 229 to 254: the framework is fetched and checked.
\<close>

definition resolveFramework ::
  "AppReconciler \<Rightarrow> App \<Rightarrow> err + (Framework \<times> ObjectReference \<times> ObjectReference)" where
  "resolveFramework r app =
     (case GetFramework r (SpecFramework app) of
        Inl e \<Rightarrow> Inl (ErrNew (''framework '' @ quoted (SpecFramework app) @ '' is not found''))
      | Inr fw \<Rightarrow>
          (case GetReference r fw of
             Inl e \<Rightarrow> Inl e
           | Inr ref \<Rightarrow>
               (case StatusNamespace fw of
                  None \<Rightarrow>
                    Inl (ErrNew (''framework '' @ quoted (fw_name fw) @
                                   '' is not linked to a kubernetes namespace''))
                | Some ns \<Rightarrow>
                    (case TemplatesGet r fw of
                       Some e \<Rightarrow>
                         Inl (ErrWrap ''failed to read configmap with the app's chart templates'' e)
                     | None \<Rightarrow>
                         if \<not> HasApp fw (app_name app) \<and>
                            (case AppQuotaLimit fw of
                               None \<Rightarrow> False
                             | Some limit \<Rightarrow>
                                 int (length (StatusApps fw)) \<ge> limit \<and> limit \<noteq> - 1)
                         then Inl (ErrNew ''you have reached the limit of apps'')
                         else Inr (fw, ref, ns)))))"

text \<open>
  Lines 256 to 277: the chart is built, the application is entered in the framework's
  member list, the helm client is made for the linked namespace \<open>ns\<close>.
\<close>

definition joinFramework ::
  "AppReconciler \<Rightarrow> Framework \<Rightarrow> ObjectReference \<Rightarrow> Pass \<Rightarrow> (err + Helm) \<times> Pass" where
  "joinFramework r fw ns p =
     (case ChartNew r (p_app p) fw of
        Some e \<Rightarrow> (Inl e, p)
      | None \<Rightarrow>
          (case (if \<not> HasApp fw (app_name (p_app p))
                 then (let patched = fw \<lparr> StatusApps := StatusApps fw @ [app_name (p_app p)] \<rparr>
                       in case PatchFrameworkStatus r patched of
                            Some e \<Rightarrow> (Some (ErrWrap ''failed to update framework status'' e), p)
                          | None \<Rightarrow> (None, p \<lparr> p_log := p_log p @ [FrameworkStatusPatched patched] \<rparr>))
                 else (None, p)) of
             (Some e, p') \<Rightarrow> (Inl e, p')
           | (None, p') \<Rightarrow>
               (case HelmFactoryFn r (ref_name ns) of
                  Inl e \<Rightarrow> (Inl e, p')
                | Inr helm \<Rightarrow> (Inr helm, p'))))"

text \<open>
  Lines 290 to 307: the pods of the canary deployment (the second one) are checked; while
  they are not ready the pass is retried until the timeout, then the canary is rolled back
  and the application written. \<^verbatim>\<open>t.Add\<close> on a nil \<open>Started\<close> is a nil dereference.
\<close>

definition canaryHealth :: "AppReconciler \<Rightarrow> Pass \<Rightarrow> Flow \<times> Pass" where
  "canaryHealth r p =
     (let app = p_app p in
      case checkPodStatus (Group r) (Some (PodClient r)) (app_name app)
             (dep_version (Deployments app ! 1)) of
        None \<Rightarrow> (Next, p)
      | Some e \<Rightarrow>
          (case Started (Canary app) of
             None \<Rightarrow> (Panic, p)
           | Some t \<Rightarrow>
               if \<not> timeoutExpired (reconcileTimeout r) t (Now r)
               then (Return \<lparr> framework = None, useTimeout = True,
                               res_err = Some (ErrWrap ''canary update failed'' e) \<rparr>, p)
               else (let rolled = DoRollback app in
                     case Update r RollbackUpdate rolled of
                       Some e' \<Rightarrow>
                         (Return (failed (ErrWrap ''failed to update app crd'' e')),
                          p \<lparr> p_app := rolled \<rparr>)
                     | None \<Rightarrow>
                         (Next, \<lparr> p_app = rolled,
                                  p_log = p_log p @ [AppUpdated RollbackUpdate rolled] \<rparr>))))"

text \<open>Lines 280 to 327: the canary step, run while the canary is active.\<close>

definition canaryStep :: "AppReconciler \<Rightarrow> ObjectReference \<Rightarrow> Pass \<Rightarrow> Flow \<times> Pass" where
  "canaryStep r ns p =
     (if \<not> Active (Canary (p_app p)) then (Next, p)
      else if length (Deployments (p_app p)) \<le> 1
      then (Return (failed (ErrNew ''no canary deployment found'')),
            p \<lparr> p_app := (p_app p) \<lparr> Canary := emptyCanarySpec \<rparr> \<rparr>)
      else (case canaryHealth r p of
              (Panic, p') \<Rightarrow> (Panic, p')
            | (Return res, p') \<Rightarrow> (Return res, p')
            | (Next, p') \<Rightarrow>
                (case ListHPAs r (ref_name ns) of
                   Some e \<Rightarrow> (Return (failed (ErrNew ''failed to find HPAs'')), p')
                 | None \<Rightarrow>
                     (case DoCanary r (p_app p') of
                        (Some e, app') \<Rightarrow>
                          (Return (failed (ErrWrap ''canary update failed'' e)), p' \<lparr> p_app := app' \<rparr>)
                      | (None, app') \<Rightarrow>
                          (case Update r CanaryUpdate app' of
                             Some e \<Rightarrow>
                               (Return (failed (ErrWrap ''canary update failed'' e)),
                                p' \<lparr> p_app := app' \<rparr>)
                           | None \<Rightarrow>
                               (Next, \<lparr> p_app = app',
                                        p_log = p_log p' @ [AppUpdated CanaryUpdate app'] \<rparr>))))))"

text \<open>
  Lines 339 to 355: for each process of the latest deployment the workload is fetched and
  its watcher started; the first failure ends the pass.
\<close>

fun watchProcesses ::
  "AppReconciler \<Rightarrow> Framework \<Rightarrow> App \<Rightarrow> int \<Rightarrow> ProcessSpec list \<Rightarrow> Effect list
   \<Rightarrow> err option \<times> Effect list" where
  "watchProcesses r fw app ver [] log = (None, log)"
| "watchProcesses r fw app ver (process # rest) log =
     (case GetDeployment r (NamespaceName fw) (app_name app) (proc_name process) ver of
        Inl e \<Rightarrow> (Some (ErrWrap ''failed to get deployment'' e), log)
      | Inr dep \<Rightarrow>
          (case WatchDeployEvents r dep process of
             Some e \<Rightarrow> (Some (ErrWrap ''failed to get deploy events'' e), log)
           | None \<Rightarrow>
               watchProcesses r fw app ver rest (log @ [WatchStarted (proc_name process)])))"

text \<open>Lines 329 to 367: the chart is applied, then the watchers are started.\<close>

definition applyChart ::
  "AppReconciler \<Rightarrow> Framework \<Rightarrow> ObjectReference \<Rightarrow> Helm \<Rightarrow> Pass \<Rightarrow> appReconcileResult \<times> Pass" where
  "applyChart r fw ref helmClient p =
     (let app = p_app p in
      case UpdateChart helmClient app of
        Some e \<Rightarrow> (failed (ErrWrap ''failed to update helm chart'' e), p)
      | None \<Rightarrow>
          (let p1 = p \<lparr> p_log := p_log p @ [ChartUpdated app] \<rparr> in
           if length (Deployments app) > 0 \<and> \<not> Active (Canary app)
           then (let latestDeployment = last (Deployments app) in
                 case watchProcesses r fw app (dep_version latestDeployment)
                        (dep_processes latestDeployment) (p_log p1) of
                   (Some e, log) \<Rightarrow> (failed e, p1 \<lparr> p_log := log \<rparr>)
                 | (None, log) \<Rightarrow>
                     (\<lparr> framework = Some ref, useTimeout = True, res_err = None \<rparr>,
                      p1 \<lparr> p_log := log \<rparr>))
           else (\<lparr> framework = Some ref, useTimeout = False, res_err = None \<rparr>, p1)))"

text \<open>
  \<open>reconcile\<close>: the result, or a panic, with the application as the pass leaves it in
  memory and the effects of the pass.
\<close>

definition reconcile :: "AppReconciler \<Rightarrow> App \<Rightarrow> appReconcileResult option \<times> Pass" where
  "reconcile r app =
     (let p = \<lparr> p_app = app, p_log = [] \<rparr> in
      case resolveFramework r app of
        Inl e \<Rightarrow> (Some (failed e), p)
      | Inr (fw, ref, ns) \<Rightarrow>
          (case joinFramework r fw ns p of
             (Inl e, p1) \<Rightarrow> (Some (failed e), p1)
           | (Inr helmClient, p1) \<Rightarrow>
               (case canaryStep r ns p1 of
                  (Panic, p2) \<Rightarrow> (None, p2)
                | (Return res, p2) \<Rightarrow> (Some res, p2)
                | (Next, p2) \<Rightarrow>
                    (case applyChart r fw ref helmClient p2 of
                       (res, p3) \<Rightarrow> (Some res, p3)))))"

section \<open>The delete path\<close>

text \<open>
  The loop of \<open>deleteChart\<close> over the frameworks: the first one that has the application
  is handled, then the loop is left; the others are skipped.
\<close>

fun deleteFromFrameworks ::
  "AppReconciler \<Rightarrow> App \<Rightarrow> Framework list \<Rightarrow> err option \<times> Effect list" where
  "deleteFromFrameworks r app [] = (None, [])"
| "deleteFromFrameworks r app (fw # fws) =
     (if \<not> HasApp fw (app_name app) then deleteFromFrameworks r app fws
      else (case (if uninstallHelmChart r (Group r) (Annotations app)
                  then (case HelmFactoryFn r (NamespaceName fw) of
                          Inl e \<Rightarrow> (Some e, [])
                        | Inr helmClient \<Rightarrow>
                            (case DeleteChart helmClient (app_name app) of
                               Some e \<Rightarrow> (Some e, [])
                             | None \<Rightarrow> (None, [ChartDeleted (app_name app)])))
                  else (None, [])) of
              (Some e, log) \<Rightarrow> (Some e, log)
            | (None, log) \<Rightarrow>
                (let patched = fw \<lparr> StatusApps := filter (\<lambda>name. name \<noteq> app_name app) (StatusApps fw) \<rparr>
                 in case PatchFrameworkStatus r patched of
                      Some e \<Rightarrow> (Some e, log)
                    | None \<Rightarrow> (None, log @ [FrameworkStatusPatched patched]))))"

text \<open>\<^verbatim>\<open>controllerutil.RemoveFinalizer\<close>: every occurrence of the finalizer goes.\<close>

definition RemoveFinalizer :: "string \<Rightarrow> App \<Rightarrow> App" where
  "RemoveFinalizer f app = app \<lparr> Finalizers := removeAll f (Finalizers app) \<rparr>"

text \<open>\<^verbatim>\<open>controllerutil.AddFinalizer\<close>: the finalizer is appended unless it is there.\<close>

definition AddFinalizer :: "string \<Rightarrow> App \<Rightarrow> App" where
  "AddFinalizer f app =
     (if f \<in> set (Finalizers app) then app else app \<lparr> Finalizers := Finalizers app @ [f] \<rparr>)"

definition ContainsFinalizer :: "App \<Rightarrow> string \<Rightarrow> bool" where
  "ContainsFinalizer app f \<longleftrightarrow> f \<in> set (Finalizers app)"

text \<open>\<open>deleteChart\<close>: the returned error, the application in memory, the effects.\<close>

definition deleteChart :: "AppReconciler \<Rightarrow> App \<Rightarrow> err option \<times> Pass" where
  "deleteChart r app =
     (case ListFrameworks r of
        Inl e \<Rightarrow> (Some e, \<lparr> p_app = app, p_log = [] \<rparr>)
      | Inr frameworks \<Rightarrow>
          (case deleteFromFrameworks r app frameworks of
             (Some e, log) \<Rightarrow> (Some e, \<lparr> p_app = app, p_log = log \<rparr>)
           | (None, log) \<Rightarrow>
               (let app' = RemoveFinalizer (KetchFinalizer r) app in
                case Update r RemoveFinalizerUpdate app' of
                  Some e \<Rightarrow> (Some e, \<lparr> p_app = app', p_log = log \<rparr>)
                | None \<Rightarrow>
                    (None, \<lparr> p_app = app',
                             p_log = log @ [AppUpdated RemoveFinalizerUpdate app'] \<rparr>))))"

section \<open>The pass\<close>

text \<open>
  What \<open>Reconcile\<close> returns: the requeue delay of \<^verbatim>\<open>ctrl.Result\<close> (0 for none) and the
  error, with the application in memory (\<open>None\<close> when none was fetched) and the effects.
\<close>

record ReconcileReturn =
  RequeueAfter :: int
  ret_err :: "err option"
  ret_app :: "App option"
  ret_log :: "Effect list"

text \<open>\<^verbatim>\<open>client.IgnoreNotFound\<close>.\<close>

definition IgnoreNotFound :: "(err \<Rightarrow> bool) \<Rightarrow> err \<Rightarrow> err option" where
  "IgnoreNotFound isnf e = (if isnf e then None else Some e)"

text \<open>The outcome event of a pass, \<open>e\<close> being the error given to \<^verbatim>\<open>outcome.String\<close>.\<close>

definition outcomeEvent :: "EventType \<Rightarrow> App \<Rightarrow> err option \<Rightarrow> Effect" where
  "outcomeEvent ty app e =
     Recorded \<lparr> ev_type = ty, ev_reason = AppReconcileOutcomeReason,
                ev_desc = OutcomeText (app_name app) (DeploymentsCount app) e \<rparr>"

text \<open>Lines 141 to 179: the outcome is recorded and the status written.\<close>

definition reportOutcome :: "AppReconciler \<Rightarrow> appReconcileResult \<Rightarrow> Pass \<Rightarrow> ReconcileReturn" where
  "reportOutcome r scheduleResult p =
     (let (err0, app1, log1) =
            (case res_err scheduleResult of
               Some e \<Rightarrow>
                 (Some e,
                  SetCondition ConditionFalse (Error e) (p_app p),
                  p_log p @ [outcomeEvent EventTypeWarning (p_app p) (Some e)])
             | None \<Rightarrow>
                 (None,
                  SetCondition ConditionTrue [] ((p_app p) \<lparr> StatusFramework := framework scheduleResult \<rparr>),
                  p_log p @ [outcomeEvent EventTypeNormal (p_app p) None]))
      in case StatusUpdate r app1 of
           Some e \<Rightarrow>
             if IsConflict r e
             then \<lparr> RequeueAfter = 0, ret_err = Some e, ret_app = Some app1, ret_log = log1 \<rparr>
             else \<lparr> RequeueAfter = 0, ret_err = Some e, ret_app = Some app1,
                    ret_log = log1 @ [outcomeEvent EventTypeWarning app1 (Some e)] \<rparr>
         | None \<Rightarrow>
             \<lparr> RequeueAfter =
                 (if useTimeout scheduleResult then reconcileTimeout r
                  else if Active (Canary app1) then StepTimeInteval (Canary app1)
                  else 0),
               ret_err = err0, ret_app = Some app1,
               ret_log = log1 @ [AppStatusUpdated app1] \<rparr>)"

text \<open>\<open>Reconcile\<close>: \<open>None\<close> is a panic of the inner reconcile.\<close>

definition Reconcile :: "AppReconciler \<Rightarrow> ReconcileReturn option" where
  "Reconcile r =
     (case GetApp r of
        Inl e \<Rightarrow>
          Some \<lparr> RequeueAfter = 0, ret_err = IgnoreNotFound (IsNotFound r) e,
                 ret_app = None, ret_log = [] \<rparr>
      | Inr app0 \<Rightarrow>
          (case (if \<not> ContainsFinalizer app0 (KetchFinalizer r)
                 then (let app' = AddFinalizer (KetchFinalizer r) app0 in
                       case Update r AddFinalizerUpdate app' of
                         Some e \<Rightarrow> (Some e, app', [])
                       | None \<Rightarrow> (None, app', [AppUpdated AddFinalizerUpdate app']))
                 else (None, app0, [])) of
             (Some e, app, log) \<Rightarrow>
               Some \<lparr> RequeueAfter = 0, ret_err = Some e, ret_app = Some app, ret_log = log \<rparr>
           | (None, app, log) \<Rightarrow>
               if DeletionTimestamp app \<noteq> None
               then (case deleteChart r app of
                       (e, p) \<Rightarrow>
                         Some \<lparr> RequeueAfter = 0, ret_err = e, ret_app = Some (p_app p),
                                ret_log = log @ p_log p \<rparr>)
               else (case reconcile r app of
                       (None, p) \<Rightarrow> None
                     | (Some scheduleResult, p) \<Rightarrow>
                         if isConflictError (IsConflict r) scheduleResult
                         then Some \<lparr> RequeueAfter = 0, ret_err = res_err scheduleResult,
                                     ret_app = Some (p_app p), ret_log = log @ p_log p \<rparr>
                         else Some (reportOutcome r scheduleResult (p \<lparr> p_log := log @ p_log p \<rparr>)))))"

section \<open>The rollout watcher\<close>

text \<open>The constants \<open>DeploymentProgressing\<close> and \<open>deadlineExeceededProgressCond\<close>.\<close>

definition DeploymentProgressing :: string where
  "DeploymentProgressing = ''Progressing''"

definition deadlineExeceededProgressCond :: string where
  "deadlineExeceededProgressCond = ''ProgressDeadlineExceeded''"

text \<open>
  A message of the watch channel: the name, reason and message of its \<^verbatim>\<open>*v1.Event\<close>,
  \<open>None\<close> when the object it carries is of another type.
\<close>

type_synonym WatchMsg = "(string \<times> string \<times> string) option"

definition isDeploymentEvent :: "WatchMsg \<Rightarrow> Deployment \<Rightarrow> bool" where
  "isDeploymentEvent msg dep =
     (case msg of None \<Rightarrow> False | Some (name, reason, message) \<Rightarrow> prefix (d_name dep) name)"

text \<open>
  The case of the \<^verbatim>\<open>select\<close> that fires in one iteration. The two timeout cases carry
  the error that \<open>createDeployTimeoutError\<close> builds from the pods it lists at that moment;
  \<open>CtxDone\<close> carries \<^verbatim>\<open>ctx.Err()\<close>.
\<close>

datatype SelectCase =
    TimeAfter
  | WatchChMsg WatchMsg
  | WatchChClosed
  | HealthcheckTimeout err
  | Timeout err
  | CtxDone err

text \<open>
  What the environment answers in one iteration after the first: the case of the select,
  the answer of the workload fetch that follows it, and the pod listing the next
  iteration's health check would see.
\<close>

type_synonym WatchInput = "SelectCase \<times> (err + Deployment) \<times> Client"

text \<open>
  The variables of the loop. \<open>healthcheckArmed\<close> says that \<open>healthcheckTimeout\<close> is not
  the nil channel any more.
\<close>

record WatchState =
  oldUpdatedReplicas :: "32 word"
  oldReadyUnits :: "32 word"
  oldPendingTermination :: "32 word"
  healthcheckArmed :: bool

text \<open>How \<open>watchFunc\<close> returns: nil, an error, or a panic.\<close>

datatype WatchReturn = RetNil | RetErr err | RetPanic

text \<open>
  A finished run of \<open>watchFunc\<close>: the return, the events it recorded, and how often the
  stop function of the event stream and the deferred cleanup function were called.
\<close>

record WatchResult =
  w_ret :: WatchReturn
  w_events :: "Event list"
  w_stops :: nat
  w_cleanups :: nat

text \<open>
  A run over a finite list of answers: it returned; or it waits in the select for an
  answer the list does not have; or the list is no run at all, as it lets the
  healthcheck timer fire while the channel is nil, which never delivers.
\<close>

datatype Run = Returned WatchResult | Waiting "Event list" | NoRun

definition watchEvent :: "EventType \<Rightarrow> Reason \<Rightarrow> Description \<Rightarrow> Event" where
  "watchEvent ty reason desc = \<lparr> ev_type = ty, ev_reason = reason, ev_desc = desc \<rparr>"

definition deadlineExceeded :: "Deployment \<Rightarrow> bool" where
  "deadlineExceeded dep \<longleftrightarrow>
     list_ex (\<lambda>c. dc_type c = DeploymentProgressing \<and> dc_reason c = deadlineExeceededProgressCond)
       (Conditions dep)"

text \<open>
  The version \<open>watchFunc\<close> gives to \<open>checkPodStatus\<close>: that of the last deployment; the
  index is out of range when there is none.
\<close>

definition latestVersion :: "App \<Rightarrow> int option" where
  "latestVersion app =
     (case Deployments app of [] \<Rightarrow> None | d # ds \<Rightarrow> Some (dep_version (last (d # ds))))"

text \<open>How one iteration goes on after the part before the select.\<close>

datatype Body =
    BodyReturn err "Event list"
  | BodyPanic "Event list"
  | BodyBreak "Event list"
  | BodySelect WatchState "Event list"

text \<open>Lines 445 to 452: the gate of the healthcheck grace period.\<close>

definition healthcheckGate ::
  "string \<Rightarrow> Client \<Rightarrow> App \<Rightarrow> 32 word \<Rightarrow> bool \<Rightarrow> Deployment \<Rightarrow> (bool \<times> Event list) option" where
  "healthcheckGate grp cl app specReplicas armed dep =
     (if \<not> armed \<and> UpdatedReplicas dep = specReplicas
      then (case latestVersion app of
              None \<Rightarrow> None
            | Some ver \<Rightarrow>
                (case checkPodStatus grp (Some cl) (app_name app) ver of
                   None \<Rightarrow>
                     Some (True, [watchEvent EventTypeNormal AppReconcileUpdate
                                    (WaitingHealthcheckText specReplicas)])
                 | Some e \<Rightarrow> Some (armed, [])))
      else Some (armed, []))"

text \<open>
  Lines 432 to 472: one iteration up to the select. \<open>evs\<close> are the events recorded before
  it; the \<^verbatim>\<open>int32\<close> differences wrap, the comparisons with 0 are signed.
\<close>

definition watchBody ::
  "string \<Rightarrow> Client \<Rightarrow> App \<Rightarrow> 32 word \<Rightarrow> WatchState \<Rightarrow> Deployment \<Rightarrow> Event list \<Rightarrow> Body" where
  "watchBody grp cl app specReplicas st dep evs =
     (if deadlineExceeded dep
      then BodyReturn
             (ErrNew (''deployment '' @ quoted (d_name dep) @ '' exceeded its progress deadline''))
             (evs @ [watchEvent EventTypeWarning AppReconcileError (DeadlineExceededText (d_name dep))])
      else
        (let evs1 = evs @
               (if oldUpdatedReplicas st \<noteq> UpdatedReplicas dep
                then [watchEvent EventTypeNormal AppReconcileUpdate
                        (UnitsCreatedText (UpdatedReplicas dep) specReplicas)]
                else [])
         in case healthcheckGate grp cl app specReplicas (healthcheckArmed st) dep of
              None \<Rightarrow> BodyPanic evs1
            | Some (armed, gateEvs) \<Rightarrow>
                (let readyUnits = UpdatedReplicas dep - UnavailableReplicas dep;
                     evs2 = evs1 @ gateEvs @
                       (if oldReadyUnits st \<noteq> readyUnits \<and> 0 \<le> sint readyUnits
                        then [watchEvent EventTypeNormal AppReconcileUpdate
                                (UnitsReadyText readyUnits specReplicas)]
                        else []);
                     pendingTermination = Replicas dep - UpdatedReplicas dep;
                     evs3 = evs2 @
                       (if oldPendingTermination st \<noteq> pendingTermination \<and> 0 < sint pendingTermination
                        then [watchEvent EventTypeNormal AppReconcileUpdate
                                (PendingTerminationText pendingTermination)]
                        else []);
                     st' = \<lparr> oldUpdatedReplicas = UpdatedReplicas dep, oldReadyUnits = readyUnits,
                             oldPendingTermination = pendingTermination, healthcheckArmed = armed \<rparr>
                 in if readyUnits = specReplicas \<and> Replicas dep = specReplicas
                    then BodyBreak evs3
                    else BodySelect st' evs3)))"

text \<open>
  Lines 474 to 496: the select. \<open>Inl\<close> is a return from \<open>watchFunc\<close>, \<open>Inr\<close> the events
  with which the loop goes on to the fetch, \<open>None\<close> a case that cannot fire. The
  \<^verbatim>\<open>break\<close> of the closed channel leaves the select alone.
\<close>

definition selectStep ::
  "App \<Rightarrow> WatchState \<Rightarrow> Deployment \<Rightarrow> Event list \<Rightarrow> SelectCase
   \<Rightarrow> ((err \<times> Event list) + Event list) option" where
  "selectStep app st dep evs sel =
     (case sel of
        TimeAfter \<Rightarrow> Some (Inr evs)
      | WatchChClosed \<Rightarrow> Some (Inr evs)
      | WatchChMsg msg \<Rightarrow>
          (if isDeploymentEvent msg dep
           then (case msg of
                   None \<Rightarrow> Some (Inr evs)
                 | Some (name, reason, message) \<Rightarrow>
                     Some (Inr (evs @ [watchEvent EventTypeNormal AppReconcileUpdate
                                         (ClusterEventText message)])))
           else Some (Inr evs))
      | HealthcheckTimeout e \<Rightarrow>
          (if healthcheckArmed st
           then Some (Inl (e, evs @ [watchEvent EventTypeWarning AppReconcileError
                                       (HealthcheckErrorText e)]))
           else None)
      | Timeout e \<Rightarrow>
          Some (Inl (e, evs @ [watchEvent EventTypeWarning AppReconcileError
                                 (DeploymentTimeoutText e)]))
      | CtxDone e \<Rightarrow> Some (Inl (e, evs)))"

text \<open>
  The value \<open>watchFunc\<close> returns with: the deferred cleanup has run once; the stop
  function has run only where the caller says so.
\<close>

definition finish :: "WatchReturn \<Rightarrow> Event list \<Rightarrow> nat \<Rightarrow> Run" where
  "finish ret evs stops =
     Returned \<lparr> w_ret = ret, w_events = evs, w_stops = stops, w_cleanups = 1 \<rparr>"

text \<open>
  Where an iteration leaves the loop before the select: a return or a panic, or the
  \<^verbatim>\<open>break\<close>, after which the outcome event is recorded, the stop function called and
  nil returned (lines 506 to 510). \<open>Inr\<close> goes on to the select.
\<close>

definition leaveBody :: "App \<Rightarrow> Deployment \<Rightarrow> Body \<Rightarrow> Run + (WatchState \<times> Event list)" where
  "leaveBody app dep body =
     (case body of
        BodyReturn e evs \<Rightarrow> Inl (finish (RetErr e) evs 0)
      | BodyPanic evs \<Rightarrow> Inl (finish RetPanic evs 0)
      | BodyBreak evs \<Rightarrow>
          Inl (finish RetNil
                 (evs @ [watchEvent EventTypeNormal AppReconcileComplete
                           (OutcomeText (app_name app) (sint (ReadyReplicas dep)) None)])
                 1)
      | BodySelect st evs \<Rightarrow> Inr (st, evs))"

text \<open>
  The loop of \<open>watchFunc\<close> (lines 431 to 504), from the workload \<open>dep\<close> and the pod
  listing \<open>cl\<close> of the current iteration, over the answers of the later ones.
\<close>

fun watchLoop ::
  "string \<Rightarrow> App \<Rightarrow> 32 word \<Rightarrow> WatchState \<Rightarrow> Deployment \<Rightarrow> Client \<Rightarrow> Event list
   \<Rightarrow> WatchInput list \<Rightarrow> Run" where
  "watchLoop grp app specReplicas st dep cl evs [] =
     (case leaveBody app dep (watchBody grp cl app specReplicas st dep evs) of
        Inl run \<Rightarrow> run
      | Inr (st', evs') \<Rightarrow> Waiting evs')"
| "watchLoop grp app specReplicas st dep cl evs ((sel, fetched, cl') # rest) =
     (case leaveBody app dep (watchBody grp cl app specReplicas st dep evs) of
        Inl run \<Rightarrow> run
      | Inr (st', evs') \<Rightarrow>
          (case selectStep app st' dep evs' sel of
             None \<Rightarrow> NoRun
           | Some (Inl (e, evs'')) \<Rightarrow> finish (RetErr e) evs'' 0
           | Some (Inr evs'') \<Rightarrow>
               (case fetched of
                  Inl e \<Rightarrow>
                    finish (RetErr e)
                      (evs'' @ [watchEvent EventTypeWarning AppReconcileError
                                  (GettingDeploymentsErrorText e)])
                      0
                | Inr dep' \<Rightarrow> watchLoop grp app specReplicas st' dep' cl' evs'' rest)))"

text \<open>The desired replica count \<open>watchFunc\<close> reads from the workload's spec.\<close>

definition desiredReplicas :: "Deployment \<Rightarrow> 32 word" where
  "desiredReplicas dep = (case SpecReplicas dep of None \<Rightarrow> 0 | Some n \<Rightarrow> n)"

text \<open>\<open>watchFunc\<close>: the variables are set up and the loop is entered.\<close>

definition watchFunc :: "string \<Rightarrow> App \<Rightarrow> Deployment \<Rightarrow> Client \<Rightarrow> WatchInput list \<Rightarrow> Run" where
  "watchFunc grp app dep cl inputs =
     watchLoop grp app (desiredReplicas dep)
       \<lparr> oldUpdatedReplicas = - 1, oldReadyUnits = - 1, oldPendingTermination = - 1,
         healthcheckArmed = False \<rparr>
       dep cl [] inputs"

text \<open>A run that has returned nil: the watcher has declared the rollout complete.\<close>

fun complete :: "Run \<Rightarrow> bool" where
  "complete (Returned res) = (w_ret res = RetNil)"
| "complete (Waiting evs) = False"
| "complete NoRun = False"

text \<open>
  A workload whose status has a condition of type Progressing with the reason
  ProgressDeadlineExceeded.
\<close>

definition stalled :: "Deployment \<Rightarrow> bool" where
  "stalled dep \<longleftrightarrow>
     list_ex (\<lambda>c. dc_type c = ''Progressing'' \<and> dc_reason c = ''ProgressDeadlineExceeded'')
       (Conditions dep)"

text \<open>
  The workload state that ends the watch with success: not stalled, the ready units
  (updated minus unavailable replicas) and the total replicas both at the desired count.
\<close>

definition completionState :: "32 word \<Rightarrow> Deployment \<Rightarrow> bool" where
  "completionState n dep \<longleftrightarrow>
     \<not> stalled dep \<and> UpdatedReplicas dep - UnavailableReplicas dep = n \<and> Replicas dep = n"

text \<open>
  The same with the updated replicas at the desired count too: updated replicas, ready
  units and total replicas equal it simultaneously.
\<close>

definition rolledOut :: "32 word \<Rightarrow> Deployment \<Rightarrow> bool" where
  "rolledOut n dep \<longleftrightarrow>
     \<not> stalled dep \<and> UpdatedReplicas dep = n \<and>
     UpdatedReplicas dep - UnavailableReplicas dep = n \<and> Replicas dep = n"

text \<open>
  A workload status as the cluster API admits it: the counters are not negative and the
  updated replicas are not more than the total replicas.
\<close>

definition validStatus :: "Deployment \<Rightarrow> bool" where
  "validStatus dep \<longleftrightarrow>
     0 \<le> sint (UnavailableReplicas dep) \<and> 0 \<le> sint (UpdatedReplicas dep) \<and>
     sint (UpdatedReplicas dep) \<le> sint (Replicas dep)"

text \<open>The chain of an error: the error, the error it wraps, and so on.\<close>

fun wrappingChain :: "err \<Rightarrow> err list" where
  "wrappingChain (ErrWrap m e) = ErrWrap m e # wrappingChain e"
| "wrappingChain (ErrNew m) = [ErrNew m]"
| "wrappingChain (StatusError c m) = [StatusError c m]"

text \<open>
  The errors the specification calls ReferenceError: the framework is missing, it is not
  linked to a namespace, the limit of applications is reached.
\<close>

definition ReferenceError :: "err \<Rightarrow> bool" where
  "ReferenceError e \<longleftrightarrow>
     (case e of
        ErrNew m \<Rightarrow>
          m = ''you have reached the limit of apps'' \<or>
          (prefix (''framework '' @ [CHR 0x22]) m \<and>
           (suffix ([CHR 0x22] @ '' is not found'') m \<or>
            suffix ([CHR 0x22] @ '' is not linked to a kubernetes namespace'') m))
      | ErrWrap m e' \<Rightarrow> False
      | StatusError c m \<Rightarrow> False)"

text \<open>The workloads the fetches of a run answer.\<close>

fun fetchedWorkloads :: "WatchInput list \<Rightarrow> Deployment list" where
  "fetchedWorkloads [] = []"
| "fetchedWorkloads ((sel, Inl e, cl) # rest) = fetchedWorkloads rest"
| "fetchedWorkloads ((sel, Inr dep, cl) # rest) = dep # fetchedWorkloads rest"

text \<open>
  The quota condition as the specification words it: the application is not yet a member,
  a limit is set, it is not the sentinel -1, and admitting the application would exceed
  it.
\<close>

definition quotaExceeded :: "Framework \<Rightarrow> string \<Rightarrow> bool" where
  "quotaExceeded fw name \<longleftrightarrow>
     \<not> HasApp fw name \<and>
     (case AppQuotaLimit fw of
        None \<Rightarrow> False
      | Some limit \<Rightarrow> limit \<noteq> - 1 \<and> int (length (StatusApps fw)) + 1 > limit)"

text \<open>An effect that is neither a chart application nor a write of the application.\<close>

definition quiet :: "Effect \<Rightarrow> bool" where
  "quiet ef \<longleftrightarrow> \<not> isChartUpdate ef \<and> \<not> isAppUpdate ef"

text \<open>The patch of the delete path: the framework without the application's name.\<close>

definition withoutApp :: "Framework \<Rightarrow> string \<Rightarrow> Framework" where
  "withoutApp fw name = fw \<lparr> StatusApps := filter (\<lambda>n. n \<noteq> name) (StatusApps fw) \<rparr>"

text \<open>The first framework of a list that has the application: the one the delete path handles.\<close>

definition owningFramework :: "Framework list \<Rightarrow> string \<Rightarrow> Framework option" where
  "owningFramework fws name = find (\<lambda>fw. HasApp fw name) fws"

text \<open>The outcome events among the effects of a pass, in order.\<close>

definition outcomeEvents :: "Effect list \<Rightarrow> Effect list" where
  "outcomeEvents log = filter isOutcomeEvent log"

text \<open>No effect is a write of the application.\<close>

definition noAppUpdate :: "Effect list \<Rightarrow> bool" where
  "noAppUpdate log \<longleftrightarrow> list_all (\<lambda>ef. \<not> isAppUpdate ef) log"

section \<open>Sample objects\<close>

text \<open>The application of the specification's scenario: one deployment, process web, 3 units.\<close>

definition sampleApp :: App where
  "sampleApp =
     \<lparr> app_name = ''sample'', Finalizers = [''theketch.io/finalizer''],
       DeletionTimestamp = None, Annotations = [],
       SpecFramework = ''demo'',
       Deployments = [\<lparr> dep_version = 1, dep_image = ''img'',
                        dep_processes = [\<lparr> proc_name = ''web'', proc_units = 3 \<rparr>] \<rparr>],
       DeploymentsCount = 1, Canary = emptyCanarySpec, StatusFramework = None,
       Scheduled = None \<rparr>"

text \<open>
  Its workload with 3 desired replicas and the given updated, unavailable and total
  replica counts.
\<close>

definition sampleDeployment :: "32 word \<Rightarrow> 32 word \<Rightarrow> 32 word \<Rightarrow> Deployment" where
  "sampleDeployment updated unavailable all =
     \<lparr> d_name = ''sample-web-1'', Generation = 1, ObservedGeneration = 1,
       SpecReplicas = Some 3, Replicas = all, UpdatedReplicas = updated,
       ReadyReplicas = updated - unavailable, UnavailableReplicas = unavailable,
       Conditions = [] \<rparr>"

text \<open>
  The workload with all 3 replicas updated and available whose status still has the
  condition that the progress deadline was exceeded.
\<close>

definition stalledDeployment :: Deployment where
  "stalledDeployment =
     (sampleDeployment 3 0 3)
       \<lparr> Conditions := [\<lparr> dc_type = ''Progressing'', dc_reason = ''ProgressDeadlineExceeded'' \<rparr>] \<rparr>"



text \<open>The framework demo, linked to its namespace, with the given quota and members.\<close>

definition sampleFramework :: "int option \<Rightarrow> string list \<Rightarrow> Framework" where
  "sampleFramework limit apps =
     \<lparr> fw_name = ''demo'', NamespaceName = ''ketch-demo'', AppQuotaLimit = limit,
       StatusNamespace = Some \<lparr> ref_kind = ''Namespace'', ref_name = ''ketch-demo'' \<rparr>,
       StatusApps = apps \<rparr>"

definition sampleHelm :: Helm where
  "sampleHelm = \<lparr> UpdateChart = (\<lambda>app. None), DeleteChart = (\<lambda>name. None) \<rparr>"

text \<open>
  A reconciler for one application and one framework whose collaborators all succeed:
  the store holds the application and the framework, the pods of every listing are
  \<open>pods\<close>, the clock reads \<open>now\<close>, the timeout is 600; a conflict is an API error with
  code 409. Failures are put in by updating a field.
\<close>

definition sampleReconciler :: "App \<Rightarrow> Framework \<Rightarrow> Pod list \<Rightarrow> time \<Rightarrow> AppReconciler" where
  "sampleReconciler app fw pods now =
     \<lparr> Group = ''theketch.io'', Now = now, reconcileTimeout = 600,
       KetchFinalizer = ''theketch.io/finalizer'',
       IsConflict = (\<lambda>e. case e of StatusError c m \<Rightarrow> c = 409 | _ \<Rightarrow> False),
       IsNotFound = (\<lambda>e. case e of StatusError c m \<Rightarrow> c = 404 | _ \<Rightarrow> False),
       PodClient = clientWithPods pods,
       GetApp = Inr app,
       Update = (\<lambda>site a. None),
       StatusUpdate = (\<lambda>a. None),
       GetFramework = (\<lambda>name. if name = fw_name fw then Inr fw
                                else Inl (StatusError 404 ''not found'')),
       ListFrameworks = Inr [fw],
       GetReference = (\<lambda>f. Inr \<lparr> ref_kind = ''Framework'', ref_name = fw_name f \<rparr>),
       TemplatesGet = (\<lambda>f. None),
       ChartNew = (\<lambda>a f. None),
       PatchFrameworkStatus = (\<lambda>f. None),
       HelmFactoryFn = (\<lambda>ns. Inr sampleHelm),
       ListHPAs = (\<lambda>ns. None),
       DoCanary = (\<lambda>a. (None, a)),
       GetDeployment = (\<lambda>ns name process ver. Inr (sampleDeployment 3 0 3)),
       WatchDeployEvents = (\<lambda>dep process. None),
       uninstallHelmChart = (\<lambda>grp annotations. True) \<rparr>"

text \<open>The sample application with an active canary and its one deployment only.\<close>

definition loneCanaryApp :: App where
  "loneCanaryApp =
     sampleApp
       \<lparr> Canary := \<lparr> Active = True, Started = Some 0, StepTimeInteval = 60, CurrentStep = 1 \<rparr> \<rparr>"

text \<open>The sample application marked for deletion.\<close>

definition terminatingApp :: App where
  "terminatingApp = sampleApp \<lparr> DeletionTimestamp := Some 100 \<rparr>"

text \<open>A chart applier whose uninstall fails.\<close>

definition failingHelm :: Helm where
  "failingHelm =
     \<lparr> UpdateChart = (\<lambda>app. None),
       DeleteChart = (\<lambda>name. Some (ErrNew ''uninstall failed'')) \<rparr>"

text \<open>
  The reconciler of the delete path for the terminating application, a member of the
  framework demo, with the given chart applier.
\<close>

definition deletingReconciler :: "Helm \<Rightarrow> AppReconciler" where
  "deletingReconciler helm =
     (sampleReconciler terminatingApp (sampleFramework None [''sample'']) [] 0)
       \<lparr> HelmFactoryFn := (\<lambda>ns. Inr helm) \<rparr>"

text \<open>
  A reconciler for the sample application whose framework is missing from the store and
  whose status write is answered by \<open>statusAnswer\<close>.
\<close>

definition missingFrameworkReconciler :: "err option \<Rightarrow> AppReconciler" where
  "missingFrameworkReconciler statusAnswer =
     (sampleReconciler sampleApp (sampleFramework None []) [] 0)
       \<lparr> GetFramework := (\<lambda>name. Inl (StatusError 404 ''not found'')),
         StatusUpdate := (\<lambda>a. statusAnswer) \<rparr>"

text \<open>The sample application before the controller has put its finalizer on it.\<close>

definition freshApp :: App where
  "freshApp = sampleApp \<lparr> Finalizers := [] \<rparr>"

text \<open>
  A reconciler for the fresh application, not yet a member of its framework, whose
  member-list patch is answered by a conflict.
\<close>

definition conflictingPatchReconciler :: AppReconciler where
  "conflictingPatchReconciler =
     (sampleReconciler freshApp (sampleFramework None []) [] 0)
       \<lparr> PatchFrameworkStatus := (\<lambda>fw. Some (StatusError 409 ''conflict'')) \<rparr>"

text \<open>
  A reconciler for the sample application, not a member of its framework, whose quota
  of 2 is used up by two other applications, and whose chart templates cannot be read.
\<close>

definition unreadableTemplatesReconciler :: AppReconciler where
  "unreadableTemplatesReconciler =
     (sampleReconciler sampleApp (sampleFramework (Some 2) [''one'', ''two'']) [] 0)
       \<lparr> TemplatesGet := (\<lambda>fw. Some (StatusError 404 ''configmap not found'')) \<rparr>"

text \<open>
  The result of a watcher of the sample application that, after its first iteration on
  3 updated replicas with 1 unavailable, runs into the overall timeout.
\<close>

definition timedOutResult :: WatchResult where
  "timedOutResult =
     \<lparr> w_ret = RetErr (ErrNew ''timeout waiting full rollout''),
       w_events =
         [watchEvent EventTypeNormal AppReconcileUpdate (UnitsCreatedText 3 3),
          watchEvent EventTypeNormal AppReconcileUpdate (WaitingHealthcheckText 3),
          watchEvent EventTypeNormal AppReconcileUpdate (UnitsReadyText 2 3),
          watchEvent EventTypeWarning AppReconcileError
            (DeploymentTimeoutText (ErrNew ''timeout waiting full rollout''))],
       w_stops = 0, w_cleanups = 1 \<rparr>"

section \<open>Properties of the health predicate\<close>

lemma checkConditions_None:
  "checkConditions cs = None \<longleftrightarrow> list_all (\<lambda>c. cond_status c = ConditionTrue) cs"
  by (induction cs) auto

lemma checkConditions_Some:
  "checkConditions cs = Some e \<Longrightarrow> e = ErrNew ''all pods are not in healthy state''"
  by (induction cs) (auto split: if_splits)

lemma checkPods_None:
  "checkPods pods = None \<longleftrightarrow>
     list_all podHealthy (takeWhile (\<lambda>p. pod_phase p \<noteq> PodSucceeded) pods)"
proof (induction pods)
  case Nil
  show ?case by simp
next
  case (Cons pod pods)
  show ?case
  proof (cases "pod_phase pod = PodSucceeded")
    case True
    then show ?thesis by simp
  next
    case notS: False
    show ?thesis
    proof (cases "pod_phase pod = PodRunning")
      case False
      with notS show ?thesis by (simp add: podHealthy_def)
    next
      case True
      with notS Cons show ?thesis
        by (cases "checkConditions (pod_conditions pod)")
           (auto simp: podHealthy_def checkConditions_None [symmetric])
    qed
  qed
qed

lemma checkPods_Some: "checkPods pods = Some e \<Longrightarrow> PodsNotReady e"
proof (induction pods)
  case Nil
  then show ?case by simp
next
  case (Cons pod pods)
  then show ?case
    by (auto simp: PodsNotReady_def split: if_splits option.splits dest: checkConditions_Some)
qed


lemma checkPods_specHealthy: "checkPods pods = None \<Longrightarrow> specHealthy pods"
proof (induction pods)
  case Nil
  show ?case by (simp add: specHealthy_def)
next
  case (Cons pod pods)
  show ?case
  proof (cases "pod_phase pod = PodSucceeded")
    case True
    then show ?thesis by (simp add: specHealthy_def)
  next
    case False
    with Cons.prems have run: "pod_phase pod = PodRunning"
      and conds: "checkConditions (pod_conditions pod) = None"
      and rest: "checkPods pods = None"
      by (auto split: if_splits option.splits)
    from conds run have "podHealthy pod"
      by (simp add: podHealthy_def checkConditions_None)
    moreover from Cons.IH rest have "specHealthy pods" .
    ultimately show ?thesis by (auto simp: specHealthy_def)
  qed
qed

lemma checkPodStatus_listed:
  assumes "appName \<noteq> []" and "0 < depVersion"
    and "ListPods cl [(grp @ ''/app-name'', LabelStr appName),
                      (grp @ ''/app-deployment-version'', LabelVersion depVersion)] = Inr pods"
  shows "checkPodStatus grp (Some cl) appName depVersion = checkPods pods"
  using assms by (simp add: checkPodStatus_def)

text \<open>
  C1, as stated, fails: a pod list with a Succeeded pod need not
  pass. Here a Pending pod is listed before the Succeeded one; the specification's
  predicate holds, and the loop returns at the Pending pod.
\<close>

theorem C1_succeeded_after_pending_counterexample:
  "specHealthy
     [\<lparr> pod_name = ''web-1'', pod_phase = PodPending, pod_message = [], pod_conditions = [] \<rparr>,
      \<lparr> pod_name = ''web-2'', pod_phase = PodSucceeded, pod_message = [], pod_conditions = [] \<rparr>]
   \<and> checkPodStatus ''theketch.io''
       (Some (clientWithPods
          [\<lparr> pod_name = ''web-1'', pod_phase = PodPending, pod_message = [], pod_conditions = [] \<rparr>,
           \<lparr> pod_name = ''web-2'', pod_phase = PodSucceeded, pod_message = [], pod_conditions = [] \<rparr>]))
       ''sample'' 1
     = Some (ErrNew ''all pods are not running'')"
  by (simp add: specHealthy_def checkPodStatus_def clientWithPods_def)

text \<open>
  C1, amended. For a call with a client, a non-empty application name, a version above 0
  and a pod listing that succeeds: the result is success exactly when every pod listed
  before the first Succeeded pod (every pod, when none is Succeeded) is Running with all
  its conditions True; every failure is one of the two pods-not-ready errors; and a
  success implies the specification's predicate (some pod is Succeeded, or every pod is
  Running with all conditions True). So a Succeeded pod passes whatever its conditions
  are, and the pods listed after it are not looked at; the pods listed before it are.
\<close>

theorem C1_checkPodStatus_scans_up_to_first_succeeded:
  assumes "appName \<noteq> []" and "0 < depVersion"
    and "ListPods cl [(grp @ ''/app-name'', LabelStr appName),
                      (grp @ ''/app-deployment-version'', LabelVersion depVersion)] = Inr pods"
  shows "(checkPodStatus grp (Some cl) appName depVersion = None \<longleftrightarrow>
            list_all podHealthy (takeWhile (\<lambda>p. pod_phase p \<noteq> PodSucceeded) pods))
       \<and> (\<forall>e. checkPodStatus grp (Some cl) appName depVersion = Some e \<longrightarrow> PodsNotReady e)
       \<and> (checkPodStatus grp (Some cl) appName depVersion = None \<longrightarrow> specHealthy pods)"
proof -
  have eq: "checkPodStatus grp (Some cl) appName depVersion = checkPods pods"
    using assms by (rule checkPodStatus_listed)
  show ?thesis
    unfolding eq using checkPods_None checkPods_Some checkPods_specHealthy by blast
qed

theorem C1_checkPodStatus_witness:
  "checkPodStatus ''theketch.io''
     (Some (clientWithPods
        [\<lparr> pod_name = ''job-1'', pod_phase = PodSucceeded, pod_message = [],
           pod_conditions = [\<lparr> cond_type = ''Ready'', cond_status = ConditionFalse \<rparr>] \<rparr>,
         \<lparr> pod_name = ''web-1'', pod_phase = PodPending, pod_message = [], pod_conditions = [] \<rparr>]))
     ''sample'' 1 = None
   \<and> specHealthy
        [\<lparr> pod_name = ''job-1'', pod_phase = PodSucceeded, pod_message = [],
           pod_conditions = [\<lparr> cond_type = ''Ready'', cond_status = ConditionFalse \<rparr>] \<rparr>,
         \<lparr> pod_name = ''web-1'', pod_phase = PodPending, pod_message = [], pod_conditions = [] \<rparr>]"
  using C1_checkPodStatus_scans_up_to_first_succeeded
    [of "''sample''" 1
        "clientWithPods
          [\<lparr> pod_name = ''job-1'', pod_phase = PodSucceeded, pod_message = [],
             pod_conditions = [\<lparr> cond_type = ''Ready'', cond_status = ConditionFalse \<rparr>] \<rparr>,
           \<lparr> pod_name = ''web-1'', pod_phase = PodPending, pod_message = [], pod_conditions = [] \<rparr>]"
        "''theketch.io''"
        "[\<lparr> pod_name = ''job-1'', pod_phase = PodSucceeded, pod_message = [],
            pod_conditions = [\<lparr> cond_type = ''Ready'', cond_status = ConditionFalse \<rparr>] \<rparr>,
          \<lparr> pod_name = ''web-1'', pod_phase = PodPending, pod_message = [], pod_conditions = [] \<rparr>]"]
  by (simp add: clientWithPods_def)

text \<open>
  C9. A call with a client, a non-empty application name and a version above 0 whose pod
  listing is empty returns nil: a deployment version without pods counts as healthy.
\<close>

theorem C9_checkPodStatus_no_pods:
  assumes "appName \<noteq> []" and "0 < depVersion"
    and "ListPods cl [(grp @ ''/app-name'', LabelStr appName),
                      (grp @ ''/app-deployment-version'', LabelVersion depVersion)] = Inr []"
  shows "checkPodStatus grp (Some cl) appName depVersion = None"
  using assms by (simp add: checkPodStatus_def)

theorem C9_checkPodStatus_no_pods_witness:
  "ListPods (clientWithPods []) [(''theketch.io'' @ ''/app-name'', LabelStr ''sample''),
      (''theketch.io'' @ ''/app-deployment-version'', LabelVersion 3)] = Inr []
   \<and> checkPodStatus ''theketch.io'' (Some (clientWithPods [])) ''sample'' 3 = None"
  using C9_checkPodStatus_no_pods [of "''sample''" 3 "clientWithPods []" "''theketch.io''"]
  by (simp add: clientWithPods_def)

section \<open>Properties of the rollout watcher\<close>

lemma stalled_code: "deadlineExceeded dep \<longleftrightarrow> stalled dep"
  by (simp add: deadlineExceeded_def stalled_def DeploymentProgressing_def
      deadlineExeceededProgressCond_def)

lemma healthcheckGate_Some:
  "Deployments app \<noteq> [] \<Longrightarrow> healthcheckGate grp cl app n armed dep \<noteq> None"
  by (auto simp: healthcheckGate_def latestVersion_def split: list.splits option.splits)

lemma watchBody_break:
  assumes "Deployments app \<noteq> []"
  shows "(\<exists>evs'. watchBody grp cl app n st dep evs = BodyBreak evs') \<longleftrightarrow> completionState n dep"
  using healthcheckGate_Some [OF assms, of grp cl n "healthcheckArmed st" dep]
  by (auto simp: watchBody_def completionState_def stalled_code Let_def split: option.splits)

lemma watchBody_select:
  assumes "Deployments app \<noteq> []"
  shows "(\<exists>st' evs'. watchBody grp cl app n st dep evs = BodySelect st' evs') \<longleftrightarrow>
     \<not> stalled dep \<and> \<not> (UpdatedReplicas dep - UnavailableReplicas dep = n \<and> Replicas dep = n)"
  using healthcheckGate_Some [OF assms, of grp cl n "healthcheckArmed st" dep]
  by (auto simp: watchBody_def stalled_code Let_def split: option.splits)

lemma leaveBody_complete:
  "(case leaveBody app dep body of Inl run \<Rightarrow> complete run | Inr x \<Rightarrow> False) \<longleftrightarrow>
     (\<exists>evs'. body = BodyBreak evs')"
  by (cases body) (auto simp: leaveBody_def finish_def)

lemma watchLoop_Nil_complete:
  "complete (watchLoop grp app n st dep cl evs []) \<longleftrightarrow>
     (\<exists>evs'. watchBody grp cl app n st dep evs = BodyBreak evs')"
  using leaveBody_complete [of app dep "watchBody grp cl app n st dep evs"]
  by (auto split: sum.splits)

lemma watchLoop_Nil_waiting:
  "(\<exists>w. watchLoop grp app n st dep cl evs [] = Waiting w) \<longleftrightarrow>
     (\<exists>st' evs'. watchBody grp cl app n st dep evs = BodySelect st' evs')"
  by (cases "watchBody grp cl app n st dep evs") (auto simp: leaveBody_def finish_def)

lemma finish_complete: "complete (finish ret evs k) \<longleftrightarrow> ret = RetNil"
  by (simp add: finish_def)

lemma watchLoop_complete_some:
  assumes "Deployments app \<noteq> []"
  shows "complete (watchLoop grp app n st dep cl evs inputs) \<Longrightarrow>
     list_ex (completionState n) (dep # fetchedWorkloads inputs)"
proof (induction inputs arbitrary: st dep cl evs)
  case Nil
  then show ?case using watchBody_break [OF assms] watchLoop_Nil_complete by simp
next
  case (Cons inp rest)
  obtain sel fetched cl' where inp: "inp = (sel, fetched, cl')" by (cases inp)
  show ?case
  proof (cases "leaveBody app dep (watchBody grp cl app n st dep evs)")
    case (Inl run)
    with Cons.prems inp have "complete run" by simp
    with Inl leaveBody_complete [of app dep "watchBody grp cl app n st dep evs"]
    have "\<exists>evs'. watchBody grp cl app n st dep evs = BodyBreak evs'" by simp
    then show ?thesis using watchBody_break [OF assms] by simp
  next
    case (Inr x)
    obtain st' evs' where x: "x = (st', evs')" by (cases x)
    from Cons.prems inp Inr x
    obtain evs'' dep' where "fetched = Inr dep'"
      and "complete (watchLoop grp app n st' dep' cl' evs'' rest)"
      by (auto simp: finish_complete split: option.splits sum.splits)
    with Cons.IH inp show ?thesis by auto
  qed
qed

lemma leaveBody_Returned:
  "leaveBody app dep body = Inl (Returned res) \<Longrightarrow>
     w_cleanups res = 1 \<and> w_stops res = (if w_ret res = RetNil then 1 else 0)"
  by (cases body) (auto simp: leaveBody_def finish_def)

lemma watchLoop_Returned:
  "watchLoop grp app n st dep cl evs inputs = Returned res \<Longrightarrow>
     w_cleanups res = 1 \<and> w_stops res = (if w_ret res = RetNil then 1 else 0)"
proof (induction inputs arbitrary: st dep cl evs)
  case Nil
  then show ?case
    by (auto split: sum.splits dest: leaveBody_Returned)
next
  case (Cons inp rest)
  obtain sel fetched cl' where inp: "inp = (sel, fetched, cl')" by (cases inp)
  show ?case
  proof (cases "leaveBody app dep (watchBody grp cl app n st dep evs)")
    case (Inl run)
    with Cons.prems inp show ?thesis by (auto dest: leaveBody_Returned)
  next
    case body: (Inr x)
    obtain st' evs' where x: "x = (st', evs')" by (cases x)
    show ?thesis
    proof (cases "selectStep app st' dep evs' sel")
      case None
      with Cons.prems inp body x show ?thesis by simp
    next
      case (Some y)
      show ?thesis
      proof (cases y)
        case (Inl z)
        with Cons.prems inp body x Some show ?thesis
          by (cases z) (auto simp: finish_def)
      next
        case sel: (Inr evs'')
        show ?thesis
        proof (cases fetched)
          case (Inl e)
          with Cons.prems inp body x Some sel show ?thesis by (auto simp: finish_def)
        next
          case (Inr dep')
          with Cons.prems inp body x Some sel
          have "watchLoop grp app n st' dep' cl' evs'' rest = Returned res" by simp
          then show ?thesis by (rule Cons.IH)
        qed
      qed
    qed
  qed
qed

lemma selectStep_closed: "selectStep app st dep evs WatchChClosed = Some (Inr evs)"
  by (simp add: selectStep_def)

lemma selectStep_tick: "selectStep app st dep evs TimeAfter = Some (Inr evs)"
  by (simp add: selectStep_def)

lemma no_unavailable:
  fixes u v n :: "32 word"
  assumes "u - v = n" and "0 \<le> sint v" and "0 \<le> sint u" and "sint u \<le> sint n"
  shows "v = 0"
proof -
  have "sint (u - v) = signed_take_bit 31 (sint u - sint v)"
    by (simp add: sint_word_ariths)
  moreover have "sint u < 2 ^ 31" and "sint v < 2 ^ 31"
    using sint_lt [of u] sint_lt [of v] by simp_all
  ultimately have "sint (u - v) = sint u - sint v"
    using assms(2,3) by (simp add: signed_take_bit_int_eq_self)
  with assms have "sint v \<le> 0" by simp
  with assms(2) have "sint v = 0" by simp
  then show ?thesis by (simp add: signed_eq_0_iff)
qed

lemma valid_completion:
  assumes "validStatus dep"
  shows "completionState n dep \<longleftrightarrow> rolledOut n dep"
proof
  assume c: "completionState n dep"
  then have "UnavailableReplicas dep = 0"
    using assms
    no_unavailable [of "UpdatedReplicas dep" "UnavailableReplicas dep" n]
    by (simp add: completionState_def validStatus_def)
  with c show "rolledOut n dep" by (simp add: completionState_def rolledOut_def)
next
  assume "rolledOut n dep"
  then show "completionState n dep" unfolding completionState_def rolledOut_def by blast
qed

lemma valid_completion_some:
  "list_all validStatus deps \<Longrightarrow> list_ex (completionState n) deps \<Longrightarrow> list_ex (rolledOut n) deps"
  by (induction deps) (auto simp: valid_completion)

text \<open>
  C2, as stated, fails: a workload whose updated replicas, ready units and total replicas
  all equal the 3 desired replicas, and whose status has the condition that the progress
  deadline was exceeded, does not complete the watch. The scan of the conditions comes
  first and returns the error.
\<close>

theorem C2_stalled_counterexample:
  "watchFunc ''theketch.io'' sampleApp stalledDeployment (clientWithPods []) []
     = Returned
         \<lparr> w_ret = RetErr (ErrNew (''deployment '' @ [CHR 0x22] @ ''sample-web-1'' @ [CHR 0x22] @
                                      '' exceeded its progress deadline'')),
           w_events = [\<lparr> ev_type = EventTypeWarning, ev_reason = AppReconcileError,
                          ev_desc = DeadlineExceededText ''sample-web-1'' \<rparr>],
           w_stops = 0, w_cleanups = 1 \<rparr>
   \<and> validStatus stalledDeployment
   \<and> SpecReplicas stalledDeployment = Some 3
   \<and> UpdatedReplicas stalledDeployment = 3
   \<and> UpdatedReplicas stalledDeployment - UnavailableReplicas stalledDeployment = 3
   \<and> Replicas stalledDeployment = 3"
  by (simp add: watchFunc_def stalledDeployment_def sampleDeployment_def desiredReplicas_def
      leaveBody_def watchBody_def deadlineExceeded_def DeploymentProgressing_def
      deadlineExeceededProgressCond_def finish_def watchEvent_def quoted_def validStatus_def
      Let_def)

text \<open>
  C2, amended. For a watched application with at least one deployment, N desired
  replicas, and a workload status as the cluster API admits it (no negative counter, not
  more updated than total replicas): an iteration of the watcher declares the rollout
  complete exactly when the status has no condition that the progress deadline was
  exceeded and the updated replicas, the ready units (updated minus unavailable
  replicas) and the total replicas all equal N. So a state with N updated replicas and
  an unavailable unit does not complete, and no state whose updated replicas differ from
  N completes. A run over such statuses completes only if the first workload state or a
  fetched one is such a state.
\<close>

theorem C2_complete_iff_updated_ready_total:
  assumes "Deployments app \<noteq> []" and "validStatus dep"
  shows "(complete (watchLoop grp app n st dep cl evs []) \<longleftrightarrow>
            \<not> stalled dep \<and> UpdatedReplicas dep = n \<and>
            UpdatedReplicas dep - UnavailableReplicas dep = n \<and> Replicas dep = n)
       \<and> (UpdatedReplicas dep = n \<and> UnavailableReplicas dep \<noteq> 0 \<longrightarrow>
            \<not> complete (watchLoop grp app n st dep cl evs []))
       \<and> (UpdatedReplicas dep \<noteq> n \<longrightarrow> \<not> complete (watchLoop grp app n st dep cl evs []))
       \<and> (list_all validStatus (fetchedWorkloads inputs) \<and>
          complete (watchLoop grp app n st dep cl evs inputs) \<longrightarrow>
            list_ex (rolledOut n) (dep # fetchedWorkloads inputs))"
proof -
  have now: "complete (watchLoop grp app n st dep cl evs []) \<longleftrightarrow> rolledOut n dep"
    using watchLoop_Nil_complete watchBody_break [OF assms(1)] valid_completion [OF assms(2)]
    by simp
  have later: "list_all validStatus (fetchedWorkloads inputs) \<and>
      complete (watchLoop grp app n st dep cl evs inputs) \<longrightarrow>
      list_ex (rolledOut n) (dep # fetchedWorkloads inputs)"
    using watchLoop_complete_some [OF assms(1), of grp n st dep cl evs inputs] assms(2)
      valid_completion_some [of "dep # fetchedWorkloads inputs" n]
    by auto
  have unavailable: "UpdatedReplicas dep = n \<and> UnavailableReplicas dep \<noteq> 0 \<longrightarrow>
      \<not> rolledOut n dep"
    by (simp add: rolledOut_def diff_eq_eq)
  have updated: "UpdatedReplicas dep \<noteq> n \<longrightarrow> \<not> rolledOut n dep"
    by (simp add: rolledOut_def)
  have unfolded: "rolledOut n dep \<longleftrightarrow>
      \<not> stalled dep \<and> UpdatedReplicas dep = n \<and>
      UpdatedReplicas dep - UnavailableReplicas dep = n \<and> Replicas dep = n"
    by (simp add: rolledOut_def)
  from now later unavailable updated unfolded show ?thesis
    by blast
qed

theorem C2_complete_witness:
  "Deployments sampleApp \<noteq> [] \<and> validStatus (sampleDeployment 3 1 3)
   \<and> validStatus (sampleDeployment 3 0 3)
   \<and> \<not> complete (watchLoop ''theketch.io'' sampleApp 3
          \<lparr> oldUpdatedReplicas = - 1, oldReadyUnits = - 1, oldPendingTermination = - 1,
            healthcheckArmed = False \<rparr>
          (sampleDeployment 3 1 3) (clientWithPods []) [] [])
   \<and> complete (watchLoop ''theketch.io'' sampleApp 3
          \<lparr> oldUpdatedReplicas = - 1, oldReadyUnits = - 1, oldPendingTermination = - 1,
            healthcheckArmed = False \<rparr>
          (sampleDeployment 3 0 3) (clientWithPods []) [] [])"
proof -
  have app: "Deployments sampleApp \<noteq> []"
    by (simp add: sampleApp_def)
  have v1: "validStatus (sampleDeployment 3 1 3)" and v0: "validStatus (sampleDeployment 3 0 3)"
    by (simp_all add: validStatus_def sampleDeployment_def)
  from C2_complete_iff_updated_ready_total [OF app v1, of "''theketch.io''" 3
          "\<lparr> oldUpdatedReplicas = - 1, oldReadyUnits = - 1, oldPendingTermination = - 1,
             healthcheckArmed = False \<rparr>" "clientWithPods []" "[]" "[]"]
  have unready: "\<not> complete (watchLoop ''theketch.io'' sampleApp 3
          \<lparr> oldUpdatedReplicas = - 1, oldReadyUnits = - 1, oldPendingTermination = - 1,
            healthcheckArmed = False \<rparr>
          (sampleDeployment 3 1 3) (clientWithPods []) [] [])"
    by (simp add: sampleDeployment_def)
  from C2_complete_iff_updated_ready_total [OF app v0, of "''theketch.io''" 3
          "\<lparr> oldUpdatedReplicas = - 1, oldReadyUnits = - 1, oldPendingTermination = - 1,
             healthcheckArmed = False \<rparr>" "clientWithPods []" "[]" "[]"]
  have ready: "complete (watchLoop ''theketch.io'' sampleApp 3
          \<lparr> oldUpdatedReplicas = - 1, oldReadyUnits = - 1, oldPendingTermination = - 1,
            healthcheckArmed = False \<rparr>
          (sampleDeployment 3 0 3) (clientWithPods []) [] [])"
    by (simp add: sampleDeployment_def stalled_def)
  from app v1 v0 unready ready show ?thesis by simp
qed

text \<open>
  C8. Take an iteration that reaches the select (the application has a deployment, the
  workload is neither stalled nor complete) and in which the select receives the
  closed-channel signal. The watcher does not return for that: the workload is fetched
  again; if the fetch fails, that error is returned; if it succeeds, the loop runs its
  next iteration on the fetched workload, so the run is complete exactly when the
  fetched workload is in the completion state, and still waits in the select exactly
  when the fetched workload is neither stalled nor complete. The iteration goes on
  exactly as one in which the poll tick fires.
\<close>

theorem C8_closed_channel_polls_on:
  assumes "Deployments app \<noteq> []" and "\<not> stalled dep"
    and "\<not> (UpdatedReplicas dep - UnavailableReplicas dep = n \<and> Replicas dep = n)"
  shows "(complete (watchLoop grp app n st dep cl evs [(WatchChClosed, Inr dep', cl')]) \<longleftrightarrow>
            completionState n dep')
       \<and> ((\<exists>w. watchLoop grp app n st dep cl evs [(WatchChClosed, Inr dep', cl')] = Waiting w) \<longleftrightarrow>
            \<not> stalled dep' \<and>
            \<not> (UpdatedReplicas dep' - UnavailableReplicas dep' = n \<and> Replicas dep' = n))
       \<and> (\<exists>res. watchLoop grp app n st dep cl evs ((WatchChClosed, Inl e, cl') # rest)
                    = Returned res \<and> w_ret res = RetErr e \<and> w_stops res = 0)
       \<and> watchLoop grp app n st dep cl evs ((WatchChClosed, fetched, cl') # rest)
           = watchLoop grp app n st dep cl evs ((TimeAfter, fetched, cl') # rest)"
proof -
  from watchBody_select [OF assms(1), of grp cl n st dep evs] assms(2,3)
  obtain st' evs' where body: "watchBody grp cl app n st dep evs = BodySelect st' evs'"
    by blast
  then have leave: "leaveBody app dep (watchBody grp cl app n st dep evs) = Inr (st', evs')"
    by (simp add: leaveBody_def)
  have next_iteration:
    "watchLoop grp app n st dep cl evs [(WatchChClosed, Inr dep', cl')]
       = watchLoop grp app n st' dep' cl' evs' []"
    using leave by (simp add: selectStep_closed)
  have done_now: "complete (watchLoop grp app n st dep cl evs [(WatchChClosed, Inr dep', cl')]) \<longleftrightarrow>
      completionState n dep'"
    unfolding next_iteration
    using watchLoop_Nil_complete watchBody_break [OF assms(1)] by simp
  have waits: "(\<exists>w. watchLoop grp app n st dep cl evs [(WatchChClosed, Inr dep', cl')] = Waiting w) \<longleftrightarrow>
      \<not> stalled dep' \<and>
      \<not> (UpdatedReplicas dep' - UnavailableReplicas dep' = n \<and> Replicas dep' = n)"
    unfolding next_iteration
    using watchLoop_Nil_waiting watchBody_select [OF assms(1)] by simp
  have fetch_error: "\<exists>res. watchLoop grp app n st dep cl evs ((WatchChClosed, Inl e, cl') # rest)
                    = Returned res \<and> w_ret res = RetErr e \<and> w_stops res = 0"
    using leave by (simp add: selectStep_closed finish_def)
  have as_tick: "watchLoop grp app n st dep cl evs ((WatchChClosed, fetched, cl') # rest)
           = watchLoop grp app n st dep cl evs ((TimeAfter, fetched, cl') # rest)"
    by (auto simp: selectStep_closed selectStep_tick split: sum.splits prod.splits)
  from done_now waits fetch_error as_tick show ?thesis by blast
qed

theorem C8_closed_channel_witness:
  "watchFunc ''theketch.io'' sampleApp (sampleDeployment 3 1 3) (clientWithPods [])
     [(WatchChClosed, Inr (sampleDeployment 3 0 3), clientWithPods [])]
     = Returned
         \<lparr> w_ret = RetNil,
           w_events =
             [\<lparr> ev_type = EventTypeNormal, ev_reason = AppReconcileUpdate,
                ev_desc = UnitsCreatedText 3 3 \<rparr>,
              \<lparr> ev_type = EventTypeNormal, ev_reason = AppReconcileUpdate,
                ev_desc = WaitingHealthcheckText 3 \<rparr>,
              \<lparr> ev_type = EventTypeNormal, ev_reason = AppReconcileUpdate,
                ev_desc = UnitsReadyText 2 3 \<rparr>,
              \<lparr> ev_type = EventTypeNormal, ev_reason = AppReconcileUpdate,
                ev_desc = UnitsReadyText 3 3 \<rparr>,
              \<lparr> ev_type = EventTypeNormal, ev_reason = AppReconcileComplete,
                ev_desc = OutcomeText ''sample'' 3 None \<rparr>],
           w_stops = 1, w_cleanups = 1 \<rparr>
   \<and> complete (watchFunc ''theketch.io'' sampleApp (sampleDeployment 3 1 3) (clientWithPods [])
       [(WatchChClosed, Inr (sampleDeployment 3 0 3), clientWithPods [])])
   \<and> \<not> complete (watchFunc ''theketch.io'' sampleApp (sampleDeployment 3 1 3) (clientWithPods [])
       [(WatchChClosed, Inr (sampleDeployment 3 1 3), clientWithPods [])])"
proof -
  have run: "watchFunc ''theketch.io'' sampleApp (sampleDeployment 3 1 3) (clientWithPods [])
     [(WatchChClosed, Inr (sampleDeployment 3 0 3), clientWithPods [])]
     = Returned
         \<lparr> w_ret = RetNil,
           w_events =
             [\<lparr> ev_type = EventTypeNormal, ev_reason = AppReconcileUpdate,
                ev_desc = UnitsCreatedText 3 3 \<rparr>,
              \<lparr> ev_type = EventTypeNormal, ev_reason = AppReconcileUpdate,
                ev_desc = WaitingHealthcheckText 3 \<rparr>,
              \<lparr> ev_type = EventTypeNormal, ev_reason = AppReconcileUpdate,
                ev_desc = UnitsReadyText 2 3 \<rparr>,
              \<lparr> ev_type = EventTypeNormal, ev_reason = AppReconcileUpdate,
                ev_desc = UnitsReadyText 3 3 \<rparr>,
              \<lparr> ev_type = EventTypeNormal, ev_reason = AppReconcileComplete,
                ev_desc = OutcomeText ''sample'' 3 None \<rparr>],
           w_stops = 1, w_cleanups = 1 \<rparr>"
    by (simp add: watchFunc_def desiredReplicas_def leaveBody_def watchBody_def
        healthcheckGate_def latestVersion_def checkPodStatus_def clientWithPods_def
        deadlineExceeded_def selectStep_def finish_def watchEvent_def sampleApp_def
        sampleDeployment_def Let_def)
  have pre: "Deployments sampleApp \<noteq> []" "\<not> stalled (sampleDeployment 3 1 3)"
    "\<not> (UpdatedReplicas (sampleDeployment 3 1 3) - UnavailableReplicas (sampleDeployment 3 1 3) = 3
        \<and> Replicas (sampleDeployment 3 1 3) = 3)"
    by (simp_all add: sampleApp_def sampleDeployment_def stalled_def)
  have spec: "desiredReplicas (sampleDeployment 3 1 3) = 3"
    by (simp add: desiredReplicas_def sampleDeployment_def)
  have loop: "watchFunc ''theketch.io'' sampleApp (sampleDeployment 3 1 3) (clientWithPods []) inputs
      = watchLoop ''theketch.io'' sampleApp 3
          \<lparr> oldUpdatedReplicas = - 1, oldReadyUnits = - 1, oldPendingTermination = - 1,
            healthcheckArmed = False \<rparr>
          (sampleDeployment 3 1 3) (clientWithPods []) [] inputs" for inputs
    by (simp only: watchFunc_def spec)
  have fetched: "completionState 3 (sampleDeployment 3 0 3)"
    "\<not> completionState 3 (sampleDeployment 3 1 3)"
    by (simp_all add: completionState_def stalled_def sampleDeployment_def)
  from fetched(1)
    C8_closed_channel_polls_on [OF pre, THEN conjunct1, of "''theketch.io''"
      "\<lparr> oldUpdatedReplicas = - 1, oldReadyUnits = - 1, oldPendingTermination = - 1,
         healthcheckArmed = False \<rparr>" "clientWithPods []" "[]" "sampleDeployment 3 0 3"
      "clientWithPods []"]
  have polled: "complete (watchFunc ''theketch.io'' sampleApp (sampleDeployment 3 1 3) (clientWithPods [])
       [(WatchChClosed, Inr (sampleDeployment 3 0 3), clientWithPods [])])"
    unfolding loop by (rule iffD2 [rotated])
  from fetched(2)
    C8_closed_channel_polls_on [OF pre, THEN conjunct1, of "''theketch.io''"
      "\<lparr> oldUpdatedReplicas = - 1, oldReadyUnits = - 1, oldPendingTermination = - 1,
         healthcheckArmed = False \<rparr>" "clientWithPods []" "[]" "sampleDeployment 3 1 3"
      "clientWithPods []"]
  have waiting: "\<not> complete (watchFunc ''theketch.io'' sampleApp (sampleDeployment 3 1 3) (clientWithPods [])
       [(WatchChClosed, Inr (sampleDeployment 3 1 3), clientWithPods [])])"
    unfolding loop by blast
  from run polled waiting show ?thesis by (intro conjI)
qed

text \<open>
  C10. In every run of \<open>watchFunc\<close> that returns, the deferred cleanup function has run
  once, and the stop function of the event stream has run once when the return is nil
  (the rollout is complete) and not at all on every other return: an error of the
  progress deadline, of either timeout, of the workload fetch or of the cancellation, or
  a panic.
\<close>

theorem C10_stop_only_on_complete:
  assumes "watchFunc grp app dep cl inputs = Returned res"
  shows "w_cleanups res = 1 \<and> w_stops res = (if w_ret res = RetNil then 1 else 0)"
  using assms watchLoop_Returned [of grp app "desiredReplicas dep" _ dep cl "[]" inputs res]
  by (simp add: watchFunc_def)

theorem C10_stop_only_on_complete_witness:
  "watchFunc ''theketch.io'' sampleApp (sampleDeployment 3 1 3) (clientWithPods [])
     [(Timeout (ErrNew ''timeout waiting full rollout''), Inr (sampleDeployment 3 0 3),
       clientWithPods [])]
     = Returned timedOutResult
   \<and> w_cleanups timedOutResult = 1
   \<and> w_stops timedOutResult = (if w_ret timedOutResult = RetNil then 1 else 0)"
proof -
  have run: "watchFunc ''theketch.io'' sampleApp (sampleDeployment 3 1 3) (clientWithPods [])
     [(Timeout (ErrNew ''timeout waiting full rollout''), Inr (sampleDeployment 3 0 3),
       clientWithPods [])]
     = Returned timedOutResult"
    by (simp add: watchFunc_def desiredReplicas_def leaveBody_def watchBody_def
        healthcheckGate_def latestVersion_def checkPodStatus_def clientWithPods_def
        deadlineExceeded_def selectStep_def finish_def sampleApp_def sampleDeployment_def
        timedOutResult_def Let_def)
  show ?thesis
    by (rule conjI [OF run C10_stop_only_on_complete [OF run]])
qed

section \<open>Properties of the inner reconcile\<close>

lemma quota_code_spec:
  "(\<not> HasApp fw name \<and>
    (case AppQuotaLimit fw of
       None \<Rightarrow> False
     | Some limit \<Rightarrow> int (length (StatusApps fw)) \<ge> limit \<and> limit \<noteq> - 1))
   \<longleftrightarrow> quotaExceeded fw name"
  by (auto simp: quotaExceeded_def split: option.splits)

lemma reconcile_resolve_fail:
  "resolveFramework r app = Inl e \<Longrightarrow>
     reconcile r app =
       (Some \<lparr> framework = None, useTimeout = False, res_err = Some e \<rparr>,
        \<lparr> p_app = app, p_log = [] \<rparr>)"
  by (simp add: reconcile_def failed_def)

lemma suffix_of_message: "suffix s (a @ b @ c @ s)"
proof -
  have "a @ b @ c @ s = (a @ b @ c) @ s" by simp
  then show ?thesis by (rule suffixI)
qed

lemma ReferenceError_messages:
  "ReferenceError (ErrNew (''framework '' @ [CHR 0x22] @ name @ [CHR 0x22] @ '' is not found''))"
  "ReferenceError (ErrNew (''framework '' @ [CHR 0x22] @ name @ [CHR 0x22] @
                             '' is not linked to a kubernetes namespace''))"
  "ReferenceError (ErrNew ''you have reached the limit of apps'')"
proof -
  have found: "suffix ([CHR 0x22] @ '' is not found'')
      (''framework '' @ [CHR 0x22] @ name @ [CHR 0x22] @ '' is not found'')"
    using suffix_of_message [of "[CHR 0x22] @ '' is not found''" "''framework ''" "[CHR 0x22]" name]
    by simp
  have linked: "suffix ([CHR 0x22] @ '' is not linked to a kubernetes namespace'')
      (''framework '' @ [CHR 0x22] @ name @ [CHR 0x22] @ '' is not linked to a kubernetes namespace'')"
    using suffix_of_message [of "[CHR 0x22] @ '' is not linked to a kubernetes namespace''"
        "''framework ''" "[CHR 0x22]" name]
    by simp
  show "ReferenceError (ErrNew (''framework '' @ [CHR 0x22] @ name @ [CHR 0x22] @ '' is not found''))"
    using found by (simp add: ReferenceError_def)
  show "ReferenceError (ErrNew (''framework '' @ [CHR 0x22] @ name @ [CHR 0x22] @
                             '' is not linked to a kubernetes namespace''))"
    using linked by (simp add: ReferenceError_def)
  show "ReferenceError (ErrNew ''you have reached the limit of apps'')"
    by (simp add: ReferenceError_def)
qed

text \<open>
  C3, as stated, fails: the application is not a member and the quota of 2 is used up, so
  admitting it would exceed the quota, but the chart templates cannot be read. The pass
  fails before the quota check, with the error of the template read, which is none of the
  three reference errors.
\<close>

theorem C3_unreadable_templates_counterexample:
  "quotaExceeded (sampleFramework (Some 2) [''one'', ''two'']) (app_name sampleApp)
   \<and> GetFramework unreadableTemplatesReconciler (SpecFramework sampleApp)
     = Inr (sampleFramework (Some 2) [''one'', ''two''])
   \<and> reconcile unreadableTemplatesReconciler sampleApp
     = (Some \<lparr> framework = None, useTimeout = False,
                res_err = Some (ErrWrap ''failed to read configmap with the app's chart templates''
                                  (StatusError 404 ''configmap not found'')) \<rparr>,
        \<lparr> p_app = sampleApp, p_log = [] \<rparr>)
   \<and> \<not> ReferenceError (ErrWrap ''failed to read configmap with the app's chart templates''
                           (StatusError 404 ''configmap not found''))"
  by (simp add: quotaExceeded_def HasApp_def reconcile_def resolveFramework_def failed_def
      unreadableTemplatesReconciler_def sampleReconciler_def sampleFramework_def sampleApp_def
      ReferenceError_def)

text \<open>
  C3, amended. In every pass the framework resolution takes these steps in order, and the
  first that fails ends the pass with its error before any effect: a missing framework
  fails with the not-found error; a failure to make the framework's object reference is
  returned as it is; a framework without a linked namespace fails with the not-linked
  error; a failure to read the chart templates is returned wrapped; and then the pass
  fails, with the limit error, exactly when the quota is exceeded: the application is not
  yet a member, a limit is set that is not -1, and admitting the application would exceed
  it. Otherwise the framework is resolved. The not-found, not-linked and limit errors are
  the reference errors. A member application, an unset limit and the limit -1 never
  exceed the quota.
\<close>

theorem C3_framework_resolution_steps:
  "(GetFramework r (SpecFramework app) = Inl e \<longrightarrow>
      reconcile r app =
        (Some \<lparr> framework = None, useTimeout = False,
                 res_err = Some (ErrNew (''framework '' @ [CHR 0x22] @ SpecFramework app @
                                           [CHR 0x22] @ '' is not found'')) \<rparr>,
         \<lparr> p_app = app, p_log = [] \<rparr>)
      \<and> ReferenceError (ErrNew (''framework '' @ [CHR 0x22] @ SpecFramework app @
                                  [CHR 0x22] @ '' is not found'')))
   \<and> (GetFramework r (SpecFramework app) = Inr fw \<and> GetReference r fw = Inl e \<longrightarrow>
      reconcile r app =
        (Some \<lparr> framework = None, useTimeout = False, res_err = Some e \<rparr>,
         \<lparr> p_app = app, p_log = [] \<rparr>))
   \<and> (GetFramework r (SpecFramework app) = Inr fw \<and> GetReference r fw = Inr ref \<and>
       StatusNamespace fw = None \<longrightarrow>
      reconcile r app =
        (Some \<lparr> framework = None, useTimeout = False,
                 res_err = Some (ErrNew (''framework '' @ [CHR 0x22] @ fw_name fw @ [CHR 0x22] @
                                           '' is not linked to a kubernetes namespace'')) \<rparr>,
         \<lparr> p_app = app, p_log = [] \<rparr>)
      \<and> ReferenceError (ErrNew (''framework '' @ [CHR 0x22] @ fw_name fw @ [CHR 0x22] @
                                  '' is not linked to a kubernetes namespace'')))
   \<and> (GetFramework r (SpecFramework app) = Inr fw \<and> GetReference r fw = Inr ref \<and>
       StatusNamespace fw = Some ns \<and> TemplatesGet r fw = Some e \<longrightarrow>
      reconcile r app =
        (Some \<lparr> framework = None, useTimeout = False,
                 res_err = Some (ErrWrap ''failed to read configmap with the app's chart templates''
                                   e) \<rparr>,
         \<lparr> p_app = app, p_log = [] \<rparr>))
   \<and> (GetFramework r (SpecFramework app) = Inr fw \<and> GetReference r fw = Inr ref \<and>
       StatusNamespace fw = Some ns \<and> TemplatesGet r fw = None \<longrightarrow>
      (quotaExceeded fw (app_name app) \<longrightarrow>
         reconcile r app =
           (Some \<lparr> framework = None, useTimeout = False,
                    res_err = Some (ErrNew ''you have reached the limit of apps'') \<rparr>,
            \<lparr> p_app = app, p_log = [] \<rparr>))
      \<and> (\<not> quotaExceeded fw (app_name app) \<longrightarrow> resolveFramework r app = Inr (fw, ref, ns)))
   \<and> ReferenceError (ErrNew ''you have reached the limit of apps'')
   \<and> (app_name app \<in> set (StatusApps fw) \<or> AppQuotaLimit fw = None \<or>
       AppQuotaLimit fw = Some (- 1) \<longrightarrow> \<not> quotaExceeded fw (app_name app))"
proof -
  have missing: "GetFramework r (SpecFramework app) = Inl e \<longrightarrow>
      resolveFramework r app =
        Inl (ErrNew (''framework '' @ [CHR 0x22] @ SpecFramework app @ [CHR 0x22] @
                       '' is not found''))"
    by (simp add: resolveFramework_def quoted_def)
  have reference: "GetFramework r (SpecFramework app) = Inr fw \<and> GetReference r fw = Inl e \<longrightarrow>
      resolveFramework r app = Inl e"
    by (simp add: resolveFramework_def)
  have unlinked: "GetFramework r (SpecFramework app) = Inr fw \<and> GetReference r fw = Inr ref \<and>
       StatusNamespace fw = None \<longrightarrow>
      resolveFramework r app =
        Inl (ErrNew (''framework '' @ [CHR 0x22] @ fw_name fw @ [CHR 0x22] @
                       '' is not linked to a kubernetes namespace''))"
    by (simp add: resolveFramework_def quoted_def)
  have templates: "GetFramework r (SpecFramework app) = Inr fw \<and> GetReference r fw = Inr ref \<and>
       StatusNamespace fw = Some ns \<and> TemplatesGet r fw = Some e \<longrightarrow>
      resolveFramework r app =
        Inl (ErrWrap ''failed to read configmap with the app's chart templates'' e)"
    by (simp add: resolveFramework_def)
  have quota: "GetFramework r (SpecFramework app) = Inr fw \<and> GetReference r fw = Inr ref \<and>
       StatusNamespace fw = Some ns \<and> TemplatesGet r fw = None \<longrightarrow>
      resolveFramework r app =
        (if quotaExceeded fw (app_name app)
         then Inl (ErrNew ''you have reached the limit of apps'')
         else Inr (fw, ref, ns))"
    using quota_code_spec [of fw "app_name app"]
    by (auto simp: resolveFramework_def)
  have skipped: "app_name app \<in> set (StatusApps fw) \<or> AppQuotaLimit fw = None \<or>
       AppQuotaLimit fw = Some (- 1) \<longrightarrow> \<not> quotaExceeded fw (app_name app)"
    by (auto simp: quotaExceeded_def HasApp_def)
  note fail = reconcile_resolve_fail [of r app]
  from missing fail have c1: "GetFramework r (SpecFramework app) = Inl e \<longrightarrow>
      reconcile r app =
        (Some \<lparr> framework = None, useTimeout = False,
                 res_err = Some (ErrNew (''framework '' @ [CHR 0x22] @ SpecFramework app @
                                           [CHR 0x22] @ '' is not found'')) \<rparr>,
         \<lparr> p_app = app, p_log = [] \<rparr>)"
    by blast
  from reference fail have c2: "GetFramework r (SpecFramework app) = Inr fw \<and>
      GetReference r fw = Inl e \<longrightarrow>
      reconcile r app =
        (Some \<lparr> framework = None, useTimeout = False, res_err = Some e \<rparr>,
         \<lparr> p_app = app, p_log = [] \<rparr>)"
    by blast
  from unlinked fail have c3: "GetFramework r (SpecFramework app) = Inr fw \<and>
      GetReference r fw = Inr ref \<and> StatusNamespace fw = None \<longrightarrow>
      reconcile r app =
        (Some \<lparr> framework = None, useTimeout = False,
                 res_err = Some (ErrNew (''framework '' @ [CHR 0x22] @ fw_name fw @ [CHR 0x22] @
                                           '' is not linked to a kubernetes namespace'')) \<rparr>,
         \<lparr> p_app = app, p_log = [] \<rparr>)"
    by blast
  from templates fail have c4: "GetFramework r (SpecFramework app) = Inr fw \<and>
      GetReference r fw = Inr ref \<and> StatusNamespace fw = Some ns \<and>
      TemplatesGet r fw = Some e \<longrightarrow>
      reconcile r app =
        (Some \<lparr> framework = None, useTimeout = False,
                 res_err = Some (ErrWrap ''failed to read configmap with the app's chart templates''
                                   e) \<rparr>,
         \<lparr> p_app = app, p_log = [] \<rparr>)"
    by blast
  from quota fail have c5: "GetFramework r (SpecFramework app) = Inr fw \<and>
      GetReference r fw = Inr ref \<and> StatusNamespace fw = Some ns \<and>
      TemplatesGet r fw = None \<longrightarrow>
      (quotaExceeded fw (app_name app) \<longrightarrow>
         reconcile r app =
           (Some \<lparr> framework = None, useTimeout = False,
                    res_err = Some (ErrNew ''you have reached the limit of apps'') \<rparr>,
            \<lparr> p_app = app, p_log = [] \<rparr>))
      \<and> (\<not> quotaExceeded fw (app_name app) \<longrightarrow> resolveFramework r app = Inr (fw, ref, ns))"
    by (cases "quotaExceeded fw (app_name app)") simp_all
  from c1 c2 c3 c4 c5 skipped ReferenceError_messages show ?thesis
    by blast
qed

theorem C3_quota_witness:
  "quotaExceeded (sampleFramework (Some 2) [''one'', ''two'']) (app_name sampleApp)
   \<and> reconcile (sampleReconciler sampleApp (sampleFramework (Some 2) [''one'', ''two'']) [] 0)
       sampleApp
     = (Some \<lparr> framework = None, useTimeout = False,
                res_err = Some (ErrNew ''you have reached the limit of apps'') \<rparr>,
        \<lparr> p_app = sampleApp, p_log = [] \<rparr>)
   \<and> app_name sampleApp \<in> set (StatusApps (sampleFramework (Some 2) [''one'', ''sample'', ''two'']))
   \<and> resolveFramework
       (sampleReconciler sampleApp (sampleFramework (Some 2) [''one'', ''sample'', ''two'']) [] 0)
       sampleApp
     = Inr (sampleFramework (Some 2) [''one'', ''sample'', ''two''],
            \<lparr> ref_kind = ''Framework'', ref_name = ''demo'' \<rparr>,
            \<lparr> ref_kind = ''Namespace'', ref_name = ''ketch-demo'' \<rparr>)"
proof -
  have full: "quotaExceeded (sampleFramework (Some 2) [''one'', ''two'']) (app_name sampleApp)"
    by (simp add: quotaExceeded_def HasApp_def sampleFramework_def sampleApp_def)
  have member:
    "app_name sampleApp \<in> set (StatusApps (sampleFramework (Some 2) [''one'', ''sample'', ''two'']))"
    by (simp add: sampleFramework_def sampleApp_def)
  from full
    C3_framework_resolution_steps
      [of "sampleReconciler sampleApp (sampleFramework (Some 2) [''one'', ''two'']) [] 0"
          sampleApp _ "sampleFramework (Some 2) [''one'', ''two'']"
          "\<lparr> ref_kind = ''Framework'', ref_name = ''demo'' \<rparr>"
          "\<lparr> ref_kind = ''Namespace'', ref_name = ''ketch-demo'' \<rparr>"]
  have refused: "reconcile (sampleReconciler sampleApp (sampleFramework (Some 2) [''one'', ''two'']) [] 0)
       sampleApp
     = (Some \<lparr> framework = None, useTimeout = False,
                res_err = Some (ErrNew ''you have reached the limit of apps'') \<rparr>,
        \<lparr> p_app = sampleApp, p_log = [] \<rparr>)"
    by (simp add: sampleReconciler_def sampleFramework_def sampleApp_def)
  from member
    C3_framework_resolution_steps
      [of "sampleReconciler sampleApp (sampleFramework (Some 2) [''one'', ''sample'', ''two'']) [] 0"
          sampleApp _ "sampleFramework (Some 2) [''one'', ''sample'', ''two'']"
          "\<lparr> ref_kind = ''Framework'', ref_name = ''demo'' \<rparr>"
          "\<lparr> ref_kind = ''Namespace'', ref_name = ''ketch-demo'' \<rparr>"]
  have admitted: "resolveFramework
       (sampleReconciler sampleApp (sampleFramework (Some 2) [''one'', ''sample'', ''two'']) [] 0)
       sampleApp
     = Inr (sampleFramework (Some 2) [''one'', ''sample'', ''two''],
            \<lparr> ref_kind = ''Framework'', ref_name = ''demo'' \<rparr>,
            \<lparr> ref_kind = ''Namespace'', ref_name = ''ketch-demo'' \<rparr>)"
    by (simp add: sampleReconciler_def sampleFramework_def sampleApp_def)
  from full refused member admitted show ?thesis by (intro conjI)
qed




lemma joinFramework_quiet:
  "joinFramework r fw ns p = (x, p') \<Longrightarrow>
     p_app p' = p_app p \<and> list_all quiet (p_log p') = list_all quiet (p_log p)"
  by (auto simp: joinFramework_def quiet_def Let_def split: option.splits if_splits sum.splits)

text \<open>
  C5. For an application whose canary is active and which has fewer than two deployments:
  the canary step returns the error that no canary deployment is found and leaves the
  application with the empty, inactive canary spec, the effects unchanged; every pass
  over it returns an error, and no effect of the pass is a chart application or a write
  of the application; and a pass that gets as far as the canary step returns that error,
  with the application changed in nothing but its canary spec, which is the empty one.
\<close>

theorem C5_canary_without_second_deployment:
  assumes active: "Active (Canary app)" and few: "length (Deployments app) < 2"
  shows "canaryStep r ns \<lparr> p_app = app, p_log = log \<rparr> =
           (Return \<lparr> framework = None, useTimeout = False,
                     res_err = Some (ErrNew ''no canary deployment found'') \<rparr>,
            \<lparr> p_app = app \<lparr> Canary := \<lparr> Active = False, Started = None,
                                          StepTimeInteval = 0, CurrentStep = 0 \<rparr> \<rparr>,
              p_log = log \<rparr>)
       \<and> (\<exists>res e. fst (reconcile r app) = Some res \<and> res_err res = Some e)
       \<and> list_all quiet (p_log (snd (reconcile r app)))
       \<and> (resolveFramework r app = Inr (fw, ref, ns) \<and>
          joinFramework r fw ns \<lparr> p_app = app, p_log = [] \<rparr> = (Inr helm, p1) \<longrightarrow>
            reconcile r app =
              (Some \<lparr> framework = None, useTimeout = False,
                       res_err = Some (ErrNew ''no canary deployment found'') \<rparr>,
               \<lparr> p_app = app \<lparr> Canary := \<lparr> Active = False, Started = None,
                                             StepTimeInteval = 0, CurrentStep = 0 \<rparr> \<rparr>,
                 p_log = p_log p1 \<rparr>)
            \<and> \<not> Active (Canary (p_app (snd (reconcile r app))))
            \<and> Deployments (p_app (snd (reconcile r app))) = Deployments app)"
proof -
  have step: "canaryStep r ns' p =
           (Return \<lparr> framework = None, useTimeout = False,
                     res_err = Some (ErrNew ''no canary deployment found'') \<rparr>,
            \<lparr> p_app = app \<lparr> Canary := \<lparr> Active = False, Started = None,
                                          StepTimeInteval = 0, CurrentStep = 0 \<rparr> \<rparr>,
              p_log = p_log p \<rparr>)"
    if "p_app p = app" for ns' p
    using that assms by (simp add: canaryStep_def failed_def emptyCanarySpec_def)
  have rec: "reconcile r app =
      (case resolveFramework r app of
         Inl e \<Rightarrow> (Some \<lparr> framework = None, useTimeout = False, res_err = Some e \<rparr>,
                   \<lparr> p_app = app, p_log = [] \<rparr>)
       | Inr (fw, ref, ns) \<Rightarrow>
           (case joinFramework r fw ns \<lparr> p_app = app, p_log = [] \<rparr> of
              (Inl e, p1) \<Rightarrow>
                (Some \<lparr> framework = None, useTimeout = False, res_err = Some e \<rparr>, p1)
            | (Inr helm, p1) \<Rightarrow>
                (Some \<lparr> framework = None, useTimeout = False,
                         res_err = Some (ErrNew ''no canary deployment found'') \<rparr>,
                 \<lparr> p_app = app \<lparr> Canary := \<lparr> Active = False, Started = None,
                                               StepTimeInteval = 0, CurrentStep = 0 \<rparr> \<rparr>,
                   p_log = p_log p1 \<rparr>)))"
    using step joinFramework_quiet
    by (auto simp: reconcile_def failed_def Let_def split: sum.splits prod.splits)
  have fails: "\<exists>res e. fst (reconcile r app) = Some res \<and> res_err res = Some e"
    unfolding rec by (auto split: sum.splits prod.splits)
  have silent: "list_all quiet (p_log (snd (reconcile r app)))"
    unfolding rec using joinFramework_quiet [of r _ _ "\<lparr> p_app = app, p_log = [] \<rparr>"]
    by (auto split: sum.splits prod.splits)
  from step [of "\<lparr> p_app = app, p_log = log \<rparr>" ns] rec fails silent show ?thesis by simp
qed

theorem C5_canary_without_second_deployment_witness:
  "reconcile (sampleReconciler loneCanaryApp (sampleFramework None []) [] 0) loneCanaryApp
     = (Some \<lparr> framework = None, useTimeout = False,
                res_err = Some (ErrNew ''no canary deployment found'') \<rparr>,
        \<lparr> p_app = loneCanaryApp \<lparr> Canary := \<lparr> Active = False, Started = None,
                                                StepTimeInteval = 0, CurrentStep = 0 \<rparr> \<rparr>,
          p_log = [FrameworkStatusPatched (sampleFramework None [''sample''])] \<rparr>)"
proof -
  have pre: "Active (Canary loneCanaryApp)" "length (Deployments loneCanaryApp) < 2"
    by (simp_all add: loneCanaryApp_def sampleApp_def)
  have resolved:
    "resolveFramework (sampleReconciler loneCanaryApp (sampleFramework None []) [] 0) loneCanaryApp
      = Inr (sampleFramework None [], \<lparr> ref_kind = ''Framework'', ref_name = ''demo'' \<rparr>,
             \<lparr> ref_kind = ''Namespace'', ref_name = ''ketch-demo'' \<rparr>)"
    by (simp add: resolveFramework_def sampleReconciler_def sampleFramework_def loneCanaryApp_def
        sampleApp_def HasApp_def)
  have joined: "joinFramework (sampleReconciler loneCanaryApp (sampleFramework None []) [] 0)
       (sampleFramework None []) \<lparr> ref_kind = ''Namespace'', ref_name = ''ketch-demo'' \<rparr>
       \<lparr> p_app = loneCanaryApp, p_log = [] \<rparr>
      = (Inr sampleHelm,
         \<lparr> p_app = loneCanaryApp,
           p_log = [FrameworkStatusPatched (sampleFramework None [''sample''])] \<rparr>)"
    by (simp add: joinFramework_def sampleReconciler_def sampleFramework_def loneCanaryApp_def
        sampleApp_def HasApp_def)
  from resolved joined
    C5_canary_without_second_deployment [OF pre,
      of "sampleReconciler loneCanaryApp (sampleFramework None []) [] 0"
         "\<lparr> ref_kind = ''Namespace'', ref_name = ''ketch-demo'' \<rparr>" "[]"
         "sampleFramework None []" "\<lparr> ref_kind = ''Framework'', ref_name = ''demo'' \<rparr>"
         sampleHelm
         "\<lparr> p_app = loneCanaryApp,
            p_log = [FrameworkStatusPatched (sampleFramework None [''sample''])] \<rparr>"]
  show ?thesis by simp
qed

section \<open>Properties of the delete path\<close>

lemma deleteFromFrameworks_no_write:
  "deleteFromFrameworks r app fws = (x, log) \<Longrightarrow> noAppUpdate log"
  by (induction fws)
     (auto simp: noAppUpdate_def Let_def split: option.splits sum.splits if_splits)

lemma deleteFromFrameworks_patched:
  "deleteFromFrameworks r app fws = (None, log) \<Longrightarrow>
   owningFramework fws (app_name app) = Some owner \<Longrightarrow>
   FrameworkStatusPatched (withoutApp owner (app_name app)) \<in> set log"
  by (induction fws)
     (auto simp: Let_def withoutApp_def owningFramework_def
        split: option.splits sum.splits if_splits)

lemma deleteFromFrameworks_owner:
  "owningFramework fws (app_name app) = Some fw \<Longrightarrow>
     deleteFromFrameworks r app fws = deleteFromFrameworks r app [fw] \<and> HasApp fw (app_name app)"
  by (induction fws) (auto simp: owningFramework_def split: if_splits)

text \<open>
  C7, as stated, fails: when the chart uninstall fails, the delete path returns that
  error at once. The application keeps its finalizer, the framework's member list is not
  patched, nothing is written.
\<close>

theorem C7_uninstall_failure_counterexample:
  "deleteChart (deletingReconciler failingHelm) terminatingApp
     = (Some (ErrNew ''uninstall failed''), \<lparr> p_app = terminatingApp, p_log = [] \<rparr>)
   \<and> Finalizers terminatingApp = [KetchFinalizer (deletingReconciler failingHelm)]"
  by (simp add: deleteChart_def deletingReconciler_def sampleReconciler_def sampleFramework_def
      terminatingApp_def sampleApp_def failingHelm_def HasApp_def)

text \<open>
  C7, amended. On the delete path the finalizer is removed, and the removal written,
  only when every step before it has succeeded. An error of the framework listing is
  returned at once; for the first framework that has the application, an error of the
  helm client factory or of the chart uninstall (when the uninstall policy applies), and
  then an error of the member-list patch, is returned at once; in each case the
  application in memory is as it was, finalizer included, and it is not written. No
  delete path that returns an error has written the application. A delete path that
  returns no error has removed the finalizer from the application and written it, and
  has patched the member list of the first framework that has the application, when
  there is one, to be without the application's name.
\<close>

theorem C7_finalizer_removed_after_all_steps:
  "(ListFrameworks r = Inl e \<longrightarrow>
      deleteChart r app = (Some e, \<lparr> p_app = app, p_log = [] \<rparr>))
   \<and> (ListFrameworks r = Inr fws \<and> owningFramework fws (app_name app) = Some fw \<and>
       uninstallHelmChart r (Group r) (Annotations app) \<and>
       HelmFactoryFn r (NamespaceName fw) = Inl e \<longrightarrow>
        deleteChart r app = (Some e, \<lparr> p_app = app, p_log = [] \<rparr>))
   \<and> (ListFrameworks r = Inr fws \<and> owningFramework fws (app_name app) = Some fw \<and>
       uninstallHelmChart r (Group r) (Annotations app) \<and>
       HelmFactoryFn r (NamespaceName fw) = Inr helm \<and>
       DeleteChart helm (app_name app) = Some e \<longrightarrow>
        deleteChart r app = (Some e, \<lparr> p_app = app, p_log = [] \<rparr>))
   \<and> (ListFrameworks r = Inr fws \<and> owningFramework fws (app_name app) = Some fw \<and>
       (uninstallHelmChart r (Group r) (Annotations app) \<longrightarrow>
          HelmFactoryFn r (NamespaceName fw) = Inr helm \<and>
          DeleteChart helm (app_name app) = None) \<and>
       PatchFrameworkStatus r (withoutApp fw (app_name app)) = Some e \<longrightarrow>
        fst (deleteChart r app) = Some e
        \<and> p_app (snd (deleteChart r app)) = app
        \<and> noAppUpdate (p_log (snd (deleteChart r app))))
   \<and> (fst (deleteChart r app) \<noteq> None \<longrightarrow> noAppUpdate (p_log (snd (deleteChart r app))))
   \<and> (fst (deleteChart r app) = None \<longrightarrow>
        Finalizers (p_app (snd (deleteChart r app)))
          = removeAll (KetchFinalizer r) (Finalizers app)
        \<and> KetchFinalizer r \<notin> set (Finalizers (p_app (snd (deleteChart r app))))
        \<and> AppUpdated RemoveFinalizerUpdate (p_app (snd (deleteChart r app)))
            \<in> set (p_log (snd (deleteChart r app))))
   \<and> (fst (deleteChart r app) = None \<and> ListFrameworks r = Inr fws \<and>
       owningFramework fws (app_name app) = Some fw \<longrightarrow>
        FrameworkStatusPatched (withoutApp fw (app_name app))
          \<in> set (p_log (snd (deleteChart r app))))"
proof -
  have listing: "ListFrameworks r = Inl e \<longrightarrow>
      deleteChart r app = (Some e, \<lparr> p_app = app, p_log = [] \<rparr>)"
    by (simp add: deleteChart_def)
  have factory: "ListFrameworks r = Inr fws \<and> owningFramework fws (app_name app) = Some fw \<and>
       uninstallHelmChart r (Group r) (Annotations app) \<and>
       HelmFactoryFn r (NamespaceName fw) = Inl e \<longrightarrow>
        deleteChart r app = (Some e, \<lparr> p_app = app, p_log = [] \<rparr>)"
    using deleteFromFrameworks_owner [of fws app fw r]
    by (auto simp: deleteChart_def)
  have uninstall: "ListFrameworks r = Inr fws \<and> owningFramework fws (app_name app) = Some fw \<and>
       uninstallHelmChart r (Group r) (Annotations app) \<and>
       HelmFactoryFn r (NamespaceName fw) = Inr helm \<and>
       DeleteChart helm (app_name app) = Some e \<longrightarrow>
        deleteChart r app = (Some e, \<lparr> p_app = app, p_log = [] \<rparr>)"
    using deleteFromFrameworks_owner [of fws app fw r]
    by (auto simp: deleteChart_def)
  have patch: "ListFrameworks r = Inr fws \<and> owningFramework fws (app_name app) = Some fw \<and>
       (uninstallHelmChart r (Group r) (Annotations app) \<longrightarrow>
          HelmFactoryFn r (NamespaceName fw) = Inr helm \<and>
          DeleteChart helm (app_name app) = None) \<and>
       PatchFrameworkStatus r (withoutApp fw (app_name app)) = Some e \<longrightarrow>
        fst (deleteChart r app) = Some e
        \<and> p_app (snd (deleteChart r app)) = app
        \<and> noAppUpdate (p_log (snd (deleteChart r app)))"
    using deleteFromFrameworks_owner [of fws app fw r]
    by (auto simp: deleteChart_def withoutApp_def noAppUpdate_def Let_def)
  have err: "fst (deleteChart r app) \<noteq> None \<longrightarrow> noAppUpdate (p_log (snd (deleteChart r app)))"
    by (auto simp: deleteChart_def Let_def noAppUpdate_def
        split: sum.splits prod.splits option.splits
        dest: deleteFromFrameworks_no_write)
  have finished: "fst (deleteChart r app) = None \<longrightarrow>
        Finalizers (p_app (snd (deleteChart r app)))
          = removeAll (KetchFinalizer r) (Finalizers app)
        \<and> KetchFinalizer r \<notin> set (Finalizers (p_app (snd (deleteChart r app))))
        \<and> AppUpdated RemoveFinalizerUpdate (p_app (snd (deleteChart r app)))
            \<in> set (p_log (snd (deleteChart r app)))"
    by (auto simp: deleteChart_def Let_def RemoveFinalizer_def
        split: sum.splits prod.splits option.splits)
  have patched: "fst (deleteChart r app) = None \<and> ListFrameworks r = Inr fws \<and>
       owningFramework fws (app_name app) = Some fw \<longrightarrow>
        FrameworkStatusPatched (withoutApp fw (app_name app))
          \<in> set (p_log (snd (deleteChart r app)))"
    by (auto simp: deleteChart_def Let_def
        split: sum.splits prod.splits option.splits dest: deleteFromFrameworks_patched)
  from listing factory uninstall patch err finished patched show ?thesis by blast
qed

theorem C7_finalizer_removed_witness:
  "fst (deleteChart (deletingReconciler sampleHelm) terminatingApp) = None
   \<and> Finalizers (p_app (snd (deleteChart (deletingReconciler sampleHelm) terminatingApp))) = []
   \<and> FrameworkStatusPatched (sampleFramework None [])
       \<in> set (p_log (snd (deleteChart (deletingReconciler sampleHelm) terminatingApp)))
   \<and> deleteChart (deletingReconciler failingHelm) terminatingApp
     = (Some (ErrNew ''uninstall failed''), \<lparr> p_app = terminatingApp, p_log = [] \<rparr>)"
proof -
  have ok: "fst (deleteChart (deletingReconciler sampleHelm) terminatingApp) = None"
    by (simp add: deleteChart_def deletingReconciler_def sampleReconciler_def sampleFramework_def
        terminatingApp_def sampleApp_def sampleHelm_def HasApp_def Let_def)
  have frameworks:
    "ListFrameworks (deletingReconciler helm) = Inr [sampleFramework None [''sample'']]" for helm
    by (simp add: deletingReconciler_def sampleReconciler_def)
  have owner: "owningFramework [sampleFramework None [''sample'']] (app_name terminatingApp)
      = Some (sampleFramework None [''sample''])"
    by (simp add: owningFramework_def HasApp_def sampleFramework_def terminatingApp_def sampleApp_def)
  have without: "withoutApp (sampleFramework None [''sample'']) (app_name terminatingApp)
      = sampleFramework None []"
    by (simp add: withoutApp_def sampleFramework_def terminatingApp_def sampleApp_def)
  have finalizers: "removeAll (KetchFinalizer (deletingReconciler sampleHelm)) (Finalizers terminatingApp) = []"
    by (simp add: deletingReconciler_def sampleReconciler_def terminatingApp_def sampleApp_def)
  have policy: "uninstallHelmChart (deletingReconciler failingHelm)
      (Group (deletingReconciler failingHelm)) (Annotations terminatingApp)"
    "HelmFactoryFn (deletingReconciler failingHelm) (NamespaceName (sampleFramework None [''sample'']))
      = Inr failingHelm"
    "DeleteChart failingHelm (app_name terminatingApp) = Some (ErrNew ''uninstall failed'')"
    by (simp_all add: deletingReconciler_def sampleReconciler_def failingHelm_def)
  from ok frameworks [of sampleHelm] owner
    C7_finalizer_removed_after_all_steps [of "deletingReconciler sampleHelm" _ terminatingApp
      "[sampleFramework None [''sample'']]" "sampleFramework None [''sample'']"]
  have good: "Finalizers (p_app (snd (deleteChart (deletingReconciler sampleHelm) terminatingApp))) = []
   \<and> FrameworkStatusPatched (sampleFramework None [])
       \<in> set (p_log (snd (deleteChart (deletingReconciler sampleHelm) terminatingApp)))"
    by (simp add: without finalizers)
  from frameworks [of failingHelm] owner policy
    C7_finalizer_removed_after_all_steps [of "deletingReconciler failingHelm"
      "ErrNew ''uninstall failed''" terminatingApp
      "[sampleFramework None [''sample'']]" "sampleFramework None [''sample'']" failingHelm]
  have bad: "deleteChart (deletingReconciler failingHelm) terminatingApp
     = (Some (ErrNew ''uninstall failed''), \<lparr> p_app = terminatingApp, p_log = [] \<rparr>)"
    by blast
  from ok good bad show ?thesis by simp
qed

section \<open>Properties of the pass\<close>

lemma joinFramework_events:
  "joinFramework r fw ns p = (x, p') \<Longrightarrow> outcomeEvents (p_log p') = outcomeEvents (p_log p)"
  by (auto simp: joinFramework_def outcomeEvents_def Let_def
      split: option.splits if_splits sum.splits)

lemma canaryStep_events:
  "canaryStep r ns p = (x, p') \<Longrightarrow> outcomeEvents (p_log p') = outcomeEvents (p_log p)"
  by (auto simp: canaryStep_def canaryHealth_def outcomeEvents_def Let_def
      split: option.splits if_splits prod.splits Flow.splits)

lemma watchProcesses_events:
  "watchProcesses r fw app ver procs log = (x, log') \<Longrightarrow>
     filter isOutcomeEvent log' = filter isOutcomeEvent log"
  by (induction procs arbitrary: log) (auto split: sum.splits option.splits)

lemma applyChart_events:
  "applyChart r fw ref helm p = (x, p') \<Longrightarrow> outcomeEvents (p_log p') = outcomeEvents (p_log p)"
  by (auto simp: applyChart_def Let_def outcomeEvents_def
      split: option.splits if_splits prod.splits dest: watchProcesses_events)

lemma reconcile_events:
  assumes "reconcile r app = (x, p)"
  shows "outcomeEvents (p_log p) = []"
proof (cases "resolveFramework r app")
  case (Inl e)
  with assms show ?thesis by (auto simp: reconcile_def outcomeEvents_def)
next
  case (Inr y)
  obtain fw ref ns where y: "y = (fw, ref, ns)" by (cases y)
  obtain j p1 where join: "joinFramework r fw ns \<lparr> p_app = app, p_log = [] \<rparr> = (j, p1)"
    by (cases "joinFramework r fw ns \<lparr> p_app = app, p_log = [] \<rparr>")
  from joinFramework_events [OF join] have e1: "outcomeEvents (p_log p1) = []"
    by (simp add: outcomeEvents_def)
  show ?thesis
  proof (cases j)
    case (Inl e)
    with assms Inr y join e1 show ?thesis by (auto simp: reconcile_def)
  next
    case helm: (Inr helm)
    obtain f p2 where step: "canaryStep r ns p1 = (f, p2)" by (cases "canaryStep r ns p1")
    from canaryStep_events [OF step] e1 have e2: "outcomeEvents (p_log p2) = []" by simp
    show ?thesis
    proof (cases f)
      case Next
      obtain res p3 where chart: "applyChart r fw ref helm p2 = (res, p3)"
        by (cases "applyChart r fw ref helm p2")
      from applyChart_events [OF chart] e2 have "outcomeEvents (p_log p3) = []" by simp
      with assms Inr y join helm step Next chart show ?thesis by (auto simp: reconcile_def)
    next
      case (Return res)
      with assms Inr y join helm step e2 show ?thesis by (auto simp: reconcile_def)
    next
      case Panic
      with assms Inr y join helm step e2 show ?thesis by (auto simp: reconcile_def)
    qed
  qed
qed

lemma isConflictChain_chain: "isConflictChain isc e \<longleftrightarrow> list_ex isc (wrappingChain e)"
  by (induction e) auto

text \<open>
  C6, as stated, fails twice. When the inner reconcile fails (here: the framework is
  missing) and the status write is then answered by a conflict, the pass returns the
  conflict, but the Warning outcome event of the inner failure has been recorded and the
  condition set to False. And when the status write fails with another error, the pass
  has recorded two Warning outcome events, not one.
\<close>

theorem C6_status_write_counterexample:
  "Reconcile (missingFrameworkReconciler (Some (StatusError 409 ''conflict'')))
     = Some \<lparr> RequeueAfter = 0, ret_err = Some (StatusError 409 ''conflict''),
              ret_app = Some (sampleApp
                \<lparr> Scheduled := Some (ConditionFalse,
                     ''framework '' @ [CHR 0x22] @ ''demo'' @ [CHR 0x22] @ '' is not found'') \<rparr>),
              ret_log =
                [Recorded \<lparr> ev_type = EventTypeWarning, ev_reason = AppReconcileOutcomeReason,
                            ev_desc = OutcomeText ''sample'' 1
                              (Some (ErrNew (''framework '' @ [CHR 0x22] @ ''demo'' @ [CHR 0x22] @
                                               '' is not found''))) \<rparr>] \<rparr>
   \<and> IsConflict (missingFrameworkReconciler (Some (StatusError 409 ''conflict'')))
       (StatusError 409 ''conflict'')
   \<and> Reconcile (missingFrameworkReconciler (Some (StatusError 500 ''unavailable'')))
     = Some \<lparr> RequeueAfter = 0, ret_err = Some (StatusError 500 ''unavailable''),
              ret_app = Some (sampleApp
                \<lparr> Scheduled := Some (ConditionFalse,
                     ''framework '' @ [CHR 0x22] @ ''demo'' @ [CHR 0x22] @ '' is not found'') \<rparr>),
              ret_log =
                [Recorded \<lparr> ev_type = EventTypeWarning, ev_reason = AppReconcileOutcomeReason,
                            ev_desc = OutcomeText ''sample'' 1
                              (Some (ErrNew (''framework '' @ [CHR 0x22] @ ''demo'' @ [CHR 0x22] @
                                               '' is not found''))) \<rparr>,
                 Recorded \<lparr> ev_type = EventTypeWarning, ev_reason = AppReconcileOutcomeReason,
                            ev_desc = OutcomeText ''sample'' 1
                              (Some (StatusError 500 ''unavailable'')) \<rparr>] \<rparr>"
  by (simp add: Reconcile_def reconcile_def resolveFramework_def reportOutcome_def
      isConflictError_def failed_def ContainsFinalizer_def missingFrameworkReconciler_def
      sampleReconciler_def sampleApp_def outcomeEvent_def SetCondition_def quoted_def Let_def)

text \<open>
  C6, amended. Take a pass that reaches the inner reconcile: the application is fetched,
  has its finalizer or gets it added and written, is not marked for deletion, and the
  inner reconcile returns a result. When the error of the result is, anywhere in its
  wrapping chain, a conflict, \<open>Reconcile\<close> returns that error with the application and
  the effects as they were left, and no outcome event is among the effects. When the
  inner reconcile failed with another error, \<open>Reconcile\<close> sets the condition to False
  with the error's message and records one Warning outcome event; when it succeeded, it
  sets the condition to True and records one Normal outcome event. Then the status is
  written: when the write is answered by a conflict, that error is returned and no
  further outcome event is recorded; when it is answered by another error, that error is
  returned and one more Warning outcome event is recorded; when it succeeds, the error
  of the inner reconcile, if any, is returned.
\<close>

theorem C6_conflicts_are_not_reported:
  assumes fetched: "GetApp r = Inr app0"
    and held: "app = (if KetchFinalizer r \<in> set (Finalizers app0) then app0
                      else app0 \<lparr> Finalizers := Finalizers app0 @ [KetchFinalizer r] \<rparr>)"
    and added: "log0 = (if KetchFinalizer r \<in> set (Finalizers app0) then []
                        else [AppUpdated AddFinalizerUpdate app])"
    and written: "KetchFinalizer r \<notin> set (Finalizers app0) \<longrightarrow>
                    Update r AddFinalizerUpdate app = None"
    and alive: "DeletionTimestamp app = None"
    and inner: "reconcile r app = (Some res, p)"
  shows "(res_err res = Some e \<and> list_ex (IsConflict r) (wrappingChain e) \<longrightarrow>
            Reconcile r = Some \<lparr> RequeueAfter = 0, ret_err = Some e,
                                 ret_app = Some (p_app p), ret_log = log0 @ p_log p \<rparr>
            \<and> outcomeEvents (log0 @ p_log p) = [])
       \<and> (res_err res = Some e \<and> \<not> list_ex (IsConflict r) (wrappingChain e) \<longrightarrow>
            (\<exists>ret. Reconcile r = Some ret
               \<and> ret_app ret = Some ((p_app p) \<lparr> Scheduled := Some (ConditionFalse, Error e) \<rparr>)
               \<and> outcomeEvents (ret_log ret) =
                   Recorded \<lparr> ev_type = EventTypeWarning, ev_reason = AppReconcileOutcomeReason,
                              ev_desc = OutcomeText (app_name (p_app p))
                                          (DeploymentsCount (p_app p)) (Some e) \<rparr> #
                   (case StatusUpdate r ((p_app p) \<lparr> Scheduled := Some (ConditionFalse, Error e) \<rparr>) of
                      None \<Rightarrow> []
                    | Some e' \<Rightarrow>
                        if IsConflict r e' then []
                        else [Recorded \<lparr> ev_type = EventTypeWarning,
                                         ev_reason = AppReconcileOutcomeReason,
                                         ev_desc = OutcomeText (app_name (p_app p))
                                                     (DeploymentsCount (p_app p)) (Some e') \<rparr>])
               \<and> ret_err ret =
                   (case StatusUpdate r ((p_app p) \<lparr> Scheduled := Some (ConditionFalse, Error e) \<rparr>) of
                      None \<Rightarrow> Some e
                    | Some e' \<Rightarrow> Some e')))
       \<and> (res_err res = None \<longrightarrow>
            (\<exists>ret. Reconcile r = Some ret
               \<and> ret_app ret = Some ((p_app p) \<lparr> StatusFramework := framework res,
                                                Scheduled := Some (ConditionTrue, []) \<rparr>)
               \<and> outcomeEvents (ret_log ret) =
                   Recorded \<lparr> ev_type = EventTypeNormal, ev_reason = AppReconcileOutcomeReason,
                              ev_desc = OutcomeText (app_name (p_app p))
                                          (DeploymentsCount (p_app p)) None \<rparr> #
                   (case StatusUpdate r ((p_app p) \<lparr> StatusFramework := framework res,
                                                   Scheduled := Some (ConditionTrue, []) \<rparr>) of
                      None \<Rightarrow> []
                    | Some e' \<Rightarrow>
                        if IsConflict r e' then []
                        else [Recorded \<lparr> ev_type = EventTypeWarning,
                                         ev_reason = AppReconcileOutcomeReason,
                                         ev_desc = OutcomeText (app_name (p_app p))
                                                     (DeploymentsCount (p_app p)) (Some e') \<rparr>])
               \<and> ret_err ret =
                   StatusUpdate r ((p_app p) \<lparr> StatusFramework := framework res,
                                               Scheduled := Some (ConditionTrue, []) \<rparr>)))"
proof -
  have quiet0: "outcomeEvents log0 = []"
    using added by (simp add: outcomeEvents_def)
  have none: "outcomeEvents (log0 @ p_log p) = []"
    using reconcile_events [OF inner] quiet0 by (simp add: outcomeEvents_def)
  have pass: "Reconcile r =
      (if isConflictError (IsConflict r) res
       then Some \<lparr> RequeueAfter = 0, ret_err = res_err res, ret_app = Some (p_app p),
                   ret_log = log0 @ p_log p \<rparr>
       else Some (reportOutcome r res (p \<lparr> p_log := log0 @ p_log p \<rparr>)))"
    using fetched held added written alive inner
    by (cases "KetchFinalizer r \<in> set (Finalizers app0)")
       (simp_all add: Reconcile_def ContainsFinalizer_def AddFinalizer_def Let_def)
  have conflict: "res_err res = Some e \<and> list_ex (IsConflict r) (wrappingChain e) \<longrightarrow>
            Reconcile r = Some \<lparr> RequeueAfter = 0, ret_err = Some e,
                                 ret_app = Some (p_app p), ret_log = log0 @ p_log p \<rparr>"
    unfolding pass by (simp add: isConflictError_def isConflictChain_chain del: isConflictChain.simps)
  have failure: "res_err res = Some e \<and> \<not> list_ex (IsConflict r) (wrappingChain e) \<longrightarrow>
            (\<exists>ret. Reconcile r = Some ret
               \<and> ret_app ret = Some ((p_app p) \<lparr> Scheduled := Some (ConditionFalse, Error e) \<rparr>)
               \<and> outcomeEvents (ret_log ret) =
                   Recorded \<lparr> ev_type = EventTypeWarning, ev_reason = AppReconcileOutcomeReason,
                              ev_desc = OutcomeText (app_name (p_app p))
                                          (DeploymentsCount (p_app p)) (Some e) \<rparr> #
                   (case StatusUpdate r ((p_app p) \<lparr> Scheduled := Some (ConditionFalse, Error e) \<rparr>) of
                      None \<Rightarrow> []
                    | Some e' \<Rightarrow>
                        if IsConflict r e' then []
                        else [Recorded \<lparr> ev_type = EventTypeWarning,
                                         ev_reason = AppReconcileOutcomeReason,
                                         ev_desc = OutcomeText (app_name (p_app p))
                                                     (DeploymentsCount (p_app p)) (Some e') \<rparr>])
               \<and> ret_err ret =
                   (case StatusUpdate r ((p_app p) \<lparr> Scheduled := Some (ConditionFalse, Error e) \<rparr>) of
                      None \<Rightarrow> Some e
                    | Some e' \<Rightarrow> Some e'))"
    unfolding pass using none
    by (auto simp: isConflictError_def isConflictChain_chain reportOutcome_def Let_def
        outcomeEvents_def outcomeEvent_def SetCondition_def simp del: isConflictChain.simps
        split: option.splits)
  have success: "res_err res = None \<longrightarrow>
            (\<exists>ret. Reconcile r = Some ret
               \<and> ret_app ret = Some ((p_app p) \<lparr> StatusFramework := framework res,
                                                Scheduled := Some (ConditionTrue, []) \<rparr>)
               \<and> outcomeEvents (ret_log ret) =
                   Recorded \<lparr> ev_type = EventTypeNormal, ev_reason = AppReconcileOutcomeReason,
                              ev_desc = OutcomeText (app_name (p_app p))
                                          (DeploymentsCount (p_app p)) None \<rparr> #
                   (case StatusUpdate r ((p_app p) \<lparr> StatusFramework := framework res,
                                                   Scheduled := Some (ConditionTrue, []) \<rparr>) of
                      None \<Rightarrow> []
                    | Some e' \<Rightarrow>
                        if IsConflict r e' then []
                        else [Recorded \<lparr> ev_type = EventTypeWarning,
                                         ev_reason = AppReconcileOutcomeReason,
                                         ev_desc = OutcomeText (app_name (p_app p))
                                                     (DeploymentsCount (p_app p)) (Some e') \<rparr>])
               \<and> ret_err ret =
                   StatusUpdate r ((p_app p) \<lparr> StatusFramework := framework res,
                                               Scheduled := Some (ConditionTrue, []) \<rparr>))"
    unfolding pass using none
    by (auto simp: isConflictError_def reportOutcome_def Let_def
        outcomeEvents_def outcomeEvent_def SetCondition_def split: option.splits)
  from none conflict failure success show ?thesis by blast
qed

theorem C6_conflicts_are_not_reported_witness:
  "Reconcile conflictingPatchReconciler
     = Some \<lparr> RequeueAfter = 0,
              ret_err = Some (ErrWrap ''failed to update framework status''
                                (StatusError 409 ''conflict'')),
              ret_app = Some sampleApp,
              ret_log = [AppUpdated AddFinalizerUpdate sampleApp] \<rparr>
   \<and> (\<exists>ret. Reconcile (missingFrameworkReconciler (Some (StatusError 409 ''conflict''))) = Some ret
        \<and> ret_err ret = Some (StatusError 409 ''conflict'')
        \<and> outcomeEvents (ret_log ret) =
            [Recorded \<lparr> ev_type = EventTypeWarning, ev_reason = AppReconcileOutcomeReason,
                        ev_desc = OutcomeText ''sample'' 1
                          (Some (ErrNew (''framework '' @ [CHR 0x22] @ ''demo'' @ [CHR 0x22] @
                                           '' is not found''))) \<rparr>])"
proof -
  have fresh: "freshApp \<lparr> Finalizers := Finalizers freshApp @ [''theketch.io/finalizer''] \<rparr>
      = sampleApp"
    by (simp add: freshApp_def sampleApp_def)
  have app1: "GetApp conflictingPatchReconciler = Inr freshApp"
    "sampleApp = (if KetchFinalizer conflictingPatchReconciler \<in> set (Finalizers freshApp)
                  then freshApp
                  else freshApp \<lparr> Finalizers := Finalizers freshApp @
                                     [KetchFinalizer conflictingPatchReconciler] \<rparr>)"
    "[AppUpdated AddFinalizerUpdate sampleApp]
       = (if KetchFinalizer conflictingPatchReconciler \<in> set (Finalizers freshApp) then []
          else [AppUpdated AddFinalizerUpdate sampleApp])"
    "KetchFinalizer conflictingPatchReconciler \<notin> set (Finalizers freshApp) \<longrightarrow>
       Update conflictingPatchReconciler AddFinalizerUpdate sampleApp = None"
    "DeletionTimestamp sampleApp = None"
    by (simp_all add: conflictingPatchReconciler_def sampleReconciler_def fresh)
       (simp_all add: freshApp_def sampleApp_def)
  have inner1: "reconcile conflictingPatchReconciler sampleApp
      = (Some \<lparr> framework = None, useTimeout = False,
                 res_err = Some (ErrWrap ''failed to update framework status''
                                   (StatusError 409 ''conflict'')) \<rparr>,
         \<lparr> p_app = sampleApp, p_log = [] \<rparr>)"
    by (simp add: reconcile_def resolveFramework_def joinFramework_def failed_def
        conflictingPatchReconciler_def sampleReconciler_def sampleFramework_def sampleApp_def
        HasApp_def Let_def)
  have isc: "list_ex (IsConflict conflictingPatchReconciler)
      (wrappingChain (ErrWrap ''failed to update framework status'' (StatusError 409 ''conflict'')))"
    by (simp add: conflictingPatchReconciler_def sampleReconciler_def)
  from isc C6_conflicts_are_not_reported [OF app1 inner1,
      of "ErrWrap ''failed to update framework status'' (StatusError 409 ''conflict'')"]
  have silent: "Reconcile conflictingPatchReconciler
     = Some \<lparr> RequeueAfter = 0,
              ret_err = Some (ErrWrap ''failed to update framework status''
                                (StatusError 409 ''conflict'')),
              ret_app = Some sampleApp,
              ret_log = [AppUpdated AddFinalizerUpdate sampleApp] \<rparr>"
    by simp
  let ?m = "missingFrameworkReconciler (Some (StatusError 409 ''conflict''))"
  have app2: "GetApp ?m = Inr sampleApp"
    "sampleApp = (if KetchFinalizer ?m \<in> set (Finalizers sampleApp)
                  then sampleApp
                  else sampleApp \<lparr> Finalizers := Finalizers sampleApp @
                                      [KetchFinalizer ?m] \<rparr>)"
    "[] = (if KetchFinalizer ?m \<in> set (Finalizers sampleApp) then []
           else [AppUpdated AddFinalizerUpdate sampleApp])"
    "KetchFinalizer ?m \<notin> set (Finalizers sampleApp) \<longrightarrow>
       Update ?m AddFinalizerUpdate sampleApp = None"
    "DeletionTimestamp sampleApp = None"
    by (simp_all add: missingFrameworkReconciler_def sampleReconciler_def sampleApp_def)
  have inner2: "reconcile ?m sampleApp
      = (Some \<lparr> framework = None, useTimeout = False,
                 res_err = Some (ErrNew (''framework '' @ [CHR 0x22] @ ''demo'' @ [CHR 0x22] @
                                           '' is not found'')) \<rparr>,
         \<lparr> p_app = sampleApp, p_log = [] \<rparr>)"
    by (simp add: reconcile_def resolveFramework_def failed_def quoted_def
        missingFrameworkReconciler_def sampleReconciler_def sampleApp_def)
  have notc: "\<not> list_ex (IsConflict ?m)
      (wrappingChain (ErrNew (''framework '' @ [CHR 0x22] @ ''demo'' @ [CHR 0x22] @
                                '' is not found'')))"
    by (simp add: missingFrameworkReconciler_def sampleReconciler_def)
  have status: "StatusUpdate ?m a
      = Some (StatusError 409 ''conflict'')"
    "IsConflict ?m (StatusError 409 ''conflict'')" for a
    by (simp_all add: missingFrameworkReconciler_def sampleReconciler_def)
  have name: "app_name sampleApp = ''sample''" "DeploymentsCount sampleApp = 1"
    by (simp_all add: sampleApp_def)
  from notc
    C6_conflicts_are_not_reported [OF app2 inner2,
      of "ErrNew (''framework '' @ [CHR 0x22] @ ''demo'' @ [CHR 0x22] @ '' is not found'')"]
  have reported: "\<exists>ret. Reconcile ?m = Some ret
        \<and> ret_err ret = Some (StatusError 409 ''conflict'')
        \<and> outcomeEvents (ret_log ret) =
            [Recorded \<lparr> ev_type = EventTypeWarning, ev_reason = AppReconcileOutcomeReason,
                        ev_desc = OutcomeText ''sample'' 1
                          (Some (ErrNew (''framework '' @ [CHR 0x22] @ ''demo'' @ [CHR 0x22] @
                                           '' is not found''))) \<rparr>]"
    by (auto simp: status name)
  from silent reported show ?thesis by (intro conjI)
qed

end
